theory Spec2Isabelle
  imports Main "HOL-Library.Sublist"
begin

section \<open>JavaScript string and array primitives used by the sources\<close>

text \<open>
  Strings are character lists. Only the library calls that the two source files make are
  modelled, each with the behaviour the language gives it on the arguments used there.
\<close>

text \<open>\<^verbatim>\<open>a || b\<close> on values that are a string or \<^verbatim>\<open>undefined\<close>: the left operand when
  it is truthy (a non-empty string), the right operand otherwise.\<close>

definition truthy :: "string option \<Rightarrow> bool" where
  "truthy v = (case v of None \<Rightarrow> False | Some s \<Rightarrow> s \<noteq> [])"

definition js_or :: "string option \<Rightarrow> string option \<Rightarrow> string option" where
  "js_or a b = (if truthy a then a else b)"

text \<open>\<^verbatim>\<open>s.replace(pat, rep)\<close> with a string pattern: only the first occurrence of
  \<^verbatim>\<open>pat\<close>, wherever it is, is replaced.\<close>

fun js_replace :: "string \<Rightarrow> string \<Rightarrow> string \<Rightarrow> string" where
  "js_replace pat rep [] = (if pat = [] then rep else [])"
| "js_replace pat rep (c # cs) =
     (if prefix pat (c # cs) then rep @ drop (length pat) (c # cs)
      else c # js_replace pat rep cs)"

text \<open>\<^verbatim>\<open>s.split(sep)\<close> for a one-character separator: never the empty array.\<close>

fun js_split :: "char \<Rightarrow> string \<Rightarrow> string list" where
  "js_split sep [] = [[]]"
| "js_split sep (c # cs) =
     (let r = js_split sep cs
      in if c = sep then [] # r else (c # hd r) # tl r)"

text \<open>\<^verbatim>\<open>xs.join(sep)\<close> on an array of strings.\<close>

fun js_join :: "string \<Rightarrow> string list \<Rightarrow> string" where
  "js_join sep [] = []"
| "js_join sep [x] = x"
| "js_join sep (x # y # ys) = x @ sep @ js_join sep (y # ys)"

text \<open>\<^verbatim>\<open>xs.findIndex(p)\<close>: the first index whose element satisfies \<^verbatim>\<open>p\<close>, or -1.\<close>

fun findIndex :: "('a \<Rightarrow> bool) \<Rightarrow> 'a list \<Rightarrow> int" where
  "findIndex p [] = - 1"
| "findIndex p (x # xs) =
     (if p x then 0 else (let r = findIndex p xs in if r < 0 then - 1 else r + 1))"

text \<open>\<^verbatim>\<open>s.lastIndexOf(c)\<close> for a one-character needle: the last index of it, or -1.\<close>

fun lastIndexOf :: "string \<Rightarrow> char \<Rightarrow> int" where
  "lastIndexOf [] c = - 1"
| "lastIndexOf (x # xs) c =
     (let r = lastIndexOf xs c in if 0 \<le> r then r + 1 else if x = c then 0 else - 1)"

text \<open>\<^verbatim>\<open>s.substring(0, e)\<close>: a negative end counts as 0, an end beyond the string as
  its length.\<close>

definition substring0 :: "string \<Rightarrow> int \<Rightarrow> string" where
  "substring0 s e = take (nat (max 0 e)) s"

text \<open>\<^verbatim>\<open>xs.slice(i)\<close> for a non-negative start index.\<close>

definition slice_from :: "'a list \<Rightarrow> int \<Rightarrow> 'a list" where
  "slice_from xs i = drop (nat i) xs"

text \<open>The decimal text of a number, as a template literal renders \<^verbatim>\<open>${paramIndex++}\<close>.\<close>

definition digit_char :: "nat \<Rightarrow> char" where
  "digit_char d = ''0123456789'' ! d"

fun show_nat :: "nat \<Rightarrow> string" where
  "show_nat n = (if n < 10 then [digit_char n] else show_nat (n div 10) @ [digit_char (n mod 10)])"

declare show_nat.simps [simp del]

section \<open>The partial update builder: \<^verbatim>\<open>updateUser\<close>\<close>

text \<open>
  \<^verbatim>\<open>interface UserData\<close>: every field optional. The social links are whatever
  \<^verbatim>\<open>JSON.parse\<close> produced; their type is the parameter \<open>'j\<close>, and \<^verbatim>\<open>JSON.stringify\<close>
  is a parameter of the builder.
\<close>

record 'j UserData =
  username :: "string option"
  email :: "string option"
  avatar :: "string option"
  bio :: "string option"
  streamKey :: "string option"
  socialLinks :: "'j option"

definition emptyUserData :: "'j UserData" where
  "emptyUserData =
     \<lparr>username = None, email = None, avatar = None, bio = None, streamKey = None,
      socialLinks = None\<rparr>"

text \<open>The state of the builder: \<^verbatim>\<open>setClauses\<close>, \<^verbatim>\<open>values\<close>, \<^verbatim>\<open>paramIndex\<close>.\<close>

type_synonym builder = "string list \<times> string list \<times> nat"

text \<open>One \<^verbatim>\<open>if (userData.f !== undefined) { setClauses.push(`col = $${paramIndex++}`);
  values.push(v); }\<close> block.\<close>

definition push_field :: "string \<Rightarrow> string option \<Rightarrow> builder \<Rightarrow> builder" where
  "push_field col v st =
     (case v of
        None \<Rightarrow> st
      | Some x \<Rightarrow>
          (case st of (setClauses, vals, paramIndex) \<Rightarrow>
             (setClauses @ [col @ '' = $'' @ show_nat paramIndex], vals @ [x], paramIndex + 1)))"

definition build_fields :: "('j \<Rightarrow> string) \<Rightarrow> string \<Rightarrow> 'j UserData \<Rightarrow> builder" where
  "build_fields stringify wallet userData =
     (let st = ([], [wallet], 2);
          st = push_field ''username'' (username userData) st;
          st = push_field ''email'' (email userData) st;
          st = push_field ''avatar'' (avatar userData) st;
          st = push_field ''bio'' (bio userData) st;
          st = push_field ''streamkey'' (streamKey userData) st;
          st = push_field ''socialLinks'' (map_option stringify (socialLinks userData)) st
      in st)"

definition timestamp_clause :: string where
  "timestamp_clause = ''updated_at = CURRENT_TIMESTAMP''"

definition setClauses_of :: "('j \<Rightarrow> string) \<Rightarrow> string \<Rightarrow> 'j UserData \<Rightarrow> string list" where
  "setClauses_of stringify wallet userData =
     fst (build_fields stringify wallet userData) @ [timestamp_clause]"

definition values_of :: "('j \<Rightarrow> string) \<Rightarrow> string \<Rightarrow> 'j UserData \<Rightarrow> string list" where
  "values_of stringify wallet userData = fst (snd (build_fields stringify wallet userData))"

text \<open>The pieces of the template literal around \<^verbatim>\<open>${setClauses.join(', ')}\<close>.\<close>

definition query_head :: string where
  "query_head = [CHR 0x0A] @ ''    UPDATE users '' @ [CHR 0x0A] @ ''    SET ''"

definition query_where :: string where
  "query_where = [CHR 0x0A] @ ''    WHERE wallet = $1'' @ [CHR 0x0A]"

definition query_returning :: string where
  "query_returning =
     ''    RETURNING id, wallet, username, email, avatar, bio, streamkey as ''
     @ [CHR 0x22] @ ''streamKey'' @ [CHR 0x22] @ '', socialLinks, updated_at''
     @ [CHR 0x0A] @ ''  ''"

definition set_text :: "('j \<Rightarrow> string) \<Rightarrow> string \<Rightarrow> 'j UserData \<Rightarrow> string" where
  "set_text stringify wallet userData = js_join '', '' (setClauses_of stringify wallet userData)"

definition query_of :: "('j \<Rightarrow> string) \<Rightarrow> string \<Rightarrow> 'j UserData \<Rightarrow> string" where
  "query_of stringify wallet userData =
     query_head @ set_text stringify wallet userData @ query_where @ query_returning"

section \<open>External collaborators\<close>

text \<open>
  The database driver, the image store, the JSON functions and the URL parser are not part
  of the repository. They are the fields of a platform record; the code is modelled over
  any such platform. A rejected promise or a thrown exception of a collaborator is the
  value \<open>None\<close> (or \<open>False\<close> for \<^verbatim>\<open>destroy\<close>).
\<close>

datatype dbval = DBool bool | DText string | DNull

type_synonym row = "(string \<times> dbval) list"

record 'j platform =
  pool_query :: "string \<Rightarrow> string list \<Rightarrow> row list option"
  upload_stream :: "string \<Rightarrow> string option"
  destroy :: "string \<Rightarrow> bool"
  JSON_parse :: "string \<Rightarrow> 'j option"
  Array_isArray :: "'j \<Rightarrow> bool"
  JSON_stringify :: "'j \<Rightarrow> string"
  URL_pathname :: "string \<Rightarrow> string option"

text \<open>The calls a run makes to the outside, in order. \<^verbatim>\<open>console.error\<close> is not
  recorded: it never changes the control flow.\<close>

datatype event =
    PoolQuery string "string list"
  | UploadStream string
  | Destroy string
  | Unlink string

text \<open>The local file system: the content of every existing path.\<close>

type_synonym filesystem = "string \<Rightarrow> string option"

text \<open>A thrown value: an \<^verbatim>\<open>Error\<close> with its message, or whatever a collaborator
  rejected with.\<close>

datatype exn = Error string | External

text \<open>Truthiness of a column read from a row; a missing column reads \<^verbatim>\<open>undefined\<close>.\<close>

definition db_truthy :: "dbval option \<Rightarrow> bool" where
  "db_truthy v =
     (case v of
        None \<Rightarrow> False
      | Some (DBool b) \<Rightarrow> b
      | Some (DText t) \<Rightarrow> t \<noteq> []
      | Some DNull \<Rightarrow> False)"

definition unlinkSync :: "filesystem \<Rightarrow> string \<Rightarrow> filesystem option" where
  "unlinkSync fs path = (if fs path = None then None else Some (fs(path := None)))"

section \<open>The image store adapter (\<^verbatim>\<open>Dcloudinary.ts\<close>)\<close>

text \<open>\<^verbatim>\<open>uploadImage\<close>: a failing \<^verbatim>\<open>readFileSync\<close> is caught and rethrown with the
  adapter's message; the promise around the upload stream is returned without being
  awaited, so its rejection passes through unchanged. The result is
  \<^verbatim>\<open>result.secure_url\<close>, the only part of the upload result the caller reads.\<close>

definition uploadImage ::
  "'j platform \<Rightarrow> filesystem \<Rightarrow> string \<Rightarrow> (exn + string) \<times> event list" where
  "uploadImage env fs filePath =
     (case fs filePath of
        None \<Rightarrow> (Inl (Error ''Failed to upload image to Cloudinary''), [])
      | Some fileBuffer \<Rightarrow>
          (case upload_stream env fileBuffer of
             None \<Rightarrow> (Inl External, [UploadStream fileBuffer])
           | Some secure_url \<Rightarrow> (Inr secure_url, [UploadStream fileBuffer])))"

text \<open>\<^verbatim>\<open>extractPublicIdFromUrl\<close>: \<open>None\<close> is \<^verbatim>\<open>null\<close>. A URL that \<^verbatim>\<open>new URL\<close>
  rejects lands in the \<^verbatim>\<open>catch\<close>, which returns \<^verbatim>\<open>null\<close> as well.\<close>

definition extractPublicIdFromUrl :: "'j platform \<Rightarrow> string \<Rightarrow> string option" where
  "extractPublicIdFromUrl env url =
     (case URL_pathname env url of
        None \<Rightarrow> None
      | Some pathname \<Rightarrow>
          (let pathParts = js_split CHR ''/'' pathname;
               uploadIndex = findIndex (\<lambda>part. part = ''upload'') pathParts
           in if uploadIndex = - 1 \<or> uploadIndex + 2 \<ge> int (length pathParts) then None
              else
                (let publicIdParts = slice_from pathParts (uploadIndex + 2);
                     lastPart = last publicIdParts;
                     lastPartWithoutExtension =
                       substring0 lastPart (lastIndexOf lastPart CHR ''.'');
                     publicIdParts =
                       publicIdParts[length publicIdParts - 1 := lastPartWithoutExtension]
                 in Some (js_join ''/'' publicIdParts))))"

text \<open>The body of the \<^verbatim>\<open>try\<close> block of \<^verbatim>\<open>deleteImage\<close>: \<^verbatim>\<open>!publicId\<close> holds for
  \<^verbatim>\<open>null\<close> and for the empty string.\<close>

definition deleteImage_try :: "'j platform \<Rightarrow> string \<Rightarrow> (exn + unit) \<times> event list" where
  "deleteImage_try env imageUrl =
     (case extractPublicIdFromUrl env imageUrl of
        None \<Rightarrow> (Inl (Error ''Invalid Cloudinary URL''), [])
      | Some publicId \<Rightarrow>
          if publicId = [] then (Inl (Error ''Invalid Cloudinary URL''), [])
          else if destroy env publicId then (Inr (), [Destroy publicId])
          else (Inl External, [Destroy publicId]))"

text \<open>\<^verbatim>\<open>deleteImage\<close>: the \<^verbatim>\<open>catch\<close> replaces whatever was thrown in the block.\<close>

definition deleteImage :: "'j platform \<Rightarrow> string \<Rightarrow> (exn + unit) \<times> event list" where
  "deleteImage env imageUrl =
     (case deleteImage_try env imageUrl of
        (Inl e, evs) \<Rightarrow> (Inl (Error ''Failed to delete image from Cloudinary''), evs)
      | (Inr u, evs) \<Rightarrow> (Inr u, evs))"

section \<open>The profile update handler\<close>

text \<open>
  A request as the handler reads it: the method (\<^verbatim>\<open>req.method\<close>), the query parameters, the
  \<^verbatim>\<open>authorization\<close> header and the outcome of decoding the multipart body
  (\<open>None\<close> when the decoder reports an error). Decoded fields are arrays of strings;
  a decoded file part is one file or an array of files.
\<close>

record File =
  filepath :: string

datatype 'a one_or_many = One 'a | Many "'a list"

type_synonym Fields = "string \<Rightarrow> string list option"

type_synonym Files = "string \<Rightarrow> File one_or_many option"

record request =
  req_method :: string
  query :: "string \<Rightarrow> string option"
  authorization :: "string option"
  form :: "(Fields \<times> Files) option"

datatype body = ErrorBody string | UpdatedBody string "row option"

type_synonym response = "nat \<times> body"

definition parseFormData :: "request \<Rightarrow> (Fields \<times> Files) option" where
  "parseFormData req = form req"

text \<open>\<^verbatim>\<open>fields.k?.[0]\<close>.\<close>

definition first_value :: "Fields \<Rightarrow> string \<Rightarrow> string option" where
  "first_value flds k =
     (case flds k of None \<Rightarrow> None | Some [] \<Rightarrow> None | Some (v # _) \<Rightarrow> Some v)"

text \<open>Lines 45 to 47: the identity, a string or \<^verbatim>\<open>undefined\<close>.\<close>

definition resolveWallet :: "request \<Rightarrow> Fields \<Rightarrow> string option" where
  "resolveWallet req flds =
     js_or (js_or (query req ''wallet'')
                  (map_option (js_replace ''Bearer '' []) (authorization req)))
           (first_value flds ''wallet'')"

definition exists_query :: string where
  "exists_query = ''SELECT EXISTS(SELECT 1 FROM users WHERE wallet = $1)''"

text \<open>\<^verbatim>\<open>checkUserExists\<close>: \<open>None\<close> when the query rejects or returns no row
  (\<^verbatim>\<open>rows[0].exists\<close> then throws); otherwise the truthiness of the column.\<close>

definition checkUserExists :: "'j platform \<Rightarrow> string \<Rightarrow> bool option \<times> event list" where
  "checkUserExists env wallet =
     (case pool_query env exists_query [wallet] of
        None \<Rightarrow> None
      | Some [] \<Rightarrow> None
      | Some (r # _) \<Rightarrow> Some (db_truthy (map_of r ''exists'')),
      [PoolQuery exists_query [wallet]])"

text \<open>\<^verbatim>\<open>updateUser\<close>: \<open>None\<close> when the query rejects; otherwise \<^verbatim>\<open>rows[0]\<close>, which is
  \<^verbatim>\<open>undefined\<close> when no row came back.\<close>

definition updateUser ::
  "'j platform \<Rightarrow> string \<Rightarrow> 'j UserData \<Rightarrow> row option option \<times> event list" where
  "updateUser env wallet userData =
     (let q = query_of (JSON_stringify env) wallet userData;
          vals = values_of (JSON_stringify env) wallet userData
      in (case pool_query env q vals of
            None \<Rightarrow> None
          | Some rows \<Rightarrow> Some (case rows of [] \<Rightarrow> None | r # _ \<Rightarrow> Some r),
          [PoolQuery q vals]))"

text \<open>Lines 63 to 66: \<^verbatim>\<open>if (fields.k?.[0]) userData.k = fields.k[0]\<close>.\<close>

definition textField :: "Fields \<Rightarrow> string \<Rightarrow> string option" where
  "textField flds k = (if truthy (first_value flds k) then first_value flds k else None)"

text \<open>Lines 60 to 78: the text fields and the social links. \<open>Inl\<close> is the early
  response of the \<^verbatim>\<open>catch\<close> around \<^verbatim>\<open>JSON.parse\<close>.\<close>

definition fieldsStep :: "'j platform \<Rightarrow> Fields \<Rightarrow> response + 'j UserData" where
  "fieldsStep env flds =
     (let userData =
            \<lparr>username = textField flds ''username'',
             email = textField flds ''email'',
             avatar = None,
             bio = textField flds ''bio'',
             streamKey = textField flds ''streamKey'',
             socialLinks = None\<rparr>
      in case first_value flds ''socialLinks'' of
           None \<Rightarrow> Inr userData
         | Some text \<Rightarrow>
             if text = [] then Inr userData
             else
               (case JSON_parse env text of
                  None \<Rightarrow> Inl (400, ErrorBody ''Invalid social links format'')
                | Some socialLinksData \<Rightarrow>
                    if Array_isArray env socialLinksData
                    then Inr (userData\<lparr>socialLinks := Some socialLinksData\<rparr>)
                    else Inr userData))"

text \<open>Lines 81 to 98. \<open>Thrown\<close> is an exception that leaves the block for the outer
  \<^verbatim>\<open>catch\<close>: reading \<^verbatim>\<open>filepath\<close> of the first element of an empty array.\<close>

datatype 'a outcome = Continue 'a | Respond response | Thrown

definition avatarStep ::
  "'j platform \<Rightarrow> filesystem \<Rightarrow> Files \<Rightarrow> 'j UserData
     \<Rightarrow> 'j UserData outcome \<times> event list \<times> filesystem" where
  "avatarStep env fs files userData =
     (case files ''avatar'' of
        None \<Rightarrow> (Continue userData, [], fs)
      | Some part \<Rightarrow>
          (case (case part of
                   Many fl \<Rightarrow> (case fl of [] \<Rightarrow> None | f # _ \<Rightarrow> Some f)
                 | One f \<Rightarrow> Some f) of
             None \<Rightarrow> (Thrown, [], fs)
           | Some avatarFile \<Rightarrow>
               (let filePath = filepath avatarFile
                in case uploadImage env fs filePath of
                     (Inl e, evs) \<Rightarrow>
                       (Respond (500, ErrorBody ''Failed to upload avatar''), evs, fs)
                   | (Inr secure_url, evs) \<Rightarrow>
                       (case unlinkSync fs filePath of
                          None \<Rightarrow>
                            (Respond (500, ErrorBody ''Failed to upload avatar''), evs, fs)
                        | Some fs' \<Rightarrow>
                            (Continue (userData\<lparr>avatar := Some secure_url\<rparr>),
                             evs @ [Unlink filePath], fs')))))"

text \<open>\<^verbatim>\<open>Object.keys(userData).length === 0\<close>.\<close>

definition no_keys :: "'j UserData \<Rightarrow> bool" where
  "no_keys ud \<longleftrightarrow>
     username ud = None \<and> email ud = None \<and> avatar ud = None \<and> bio ud = None
     \<and> streamKey ud = None \<and> socialLinks ud = None"

definition update_failed :: response where
  "update_failed = (500, ErrorBody ''Failed to update user'')"

text \<open>Lines 100 to 112.\<close>

definition persist ::
  "'j platform \<Rightarrow> string \<Rightarrow> 'j UserData \<Rightarrow> response \<times> event list" where
  "persist env wallet userData =
     (if no_keys userData then ((400, ErrorBody ''No update data provided''), [])
      else
        (case updateUser env wallet userData of
           (None, evs) \<Rightarrow> (update_failed, evs)
         | (Some updatedUser, evs) \<Rightarrow>
             ((200, UpdatedBody ''User updated successfully'' updatedUser), evs)))"

text \<open>Lines 53 to 112: the handler once the identity is known.\<close>

definition withWallet ::
  "'j platform \<Rightarrow> filesystem \<Rightarrow> string \<Rightarrow> Fields \<Rightarrow> Files
     \<Rightarrow> response \<times> event list \<times> filesystem" where
  "withWallet env fs wallet flds files =
     (case checkUserExists env wallet of
        (None, evs) \<Rightarrow> (update_failed, evs, fs)
      | (Some userExists, evs) \<Rightarrow>
          if \<not> userExists then ((404, ErrorBody ''User not found''), evs, fs)
          else
            (case fieldsStep env flds of
               Inl resp \<Rightarrow> (resp, evs, fs)
             | Inr userData \<Rightarrow>
                 (case avatarStep env fs files userData of
                    (Thrown, evs2, fs2) \<Rightarrow> (update_failed, evs @ evs2, fs2)
                  | (Respond resp, evs2, fs2) \<Rightarrow> (resp, evs @ evs2, fs2)
                  | (Continue userData2, evs2, fs2) \<Rightarrow>
                      (case persist env wallet userData2 of
                         (resp, evs3) \<Rightarrow> (resp, evs @ evs2 @ evs3, fs2)))))"

text \<open>The handler: the response, the calls made and the file system it leaves.\<close>

definition handler ::
  "'j platform \<Rightarrow> filesystem \<Rightarrow> request \<Rightarrow> response \<times> event list \<times> filesystem" where
  "handler env fs req =
     (if req_method req \<noteq> ''PUT'' \<and> req_method req \<noteq> ''PATCH''
      then ((405, ErrorBody ''Method not allowed''), [], fs)
      else
        (case parseFormData req of
           None \<Rightarrow> (update_failed, [], fs)
         | Some (flds, files) \<Rightarrow>
             (case resolveWallet req flds of
                None \<Rightarrow> ((400, ErrorBody ''Wallet address is required''), [], fs)
              | Some wallet \<Rightarrow>
                  if wallet = [] then ((400, ErrorBody ''Wallet address is required''), [], fs)
                  else withWallet env fs wallet flds files)))"

section \<open>Definitions used to state the properties\<close>

subsection \<open>The update statement as the specification describes it\<close>

text \<open>The assignment a supplied field contributes: its column and the value bound.\<close>

definition opt_assign :: "string \<Rightarrow> string option \<Rightarrow> (string \<times> string) list" where
  "opt_assign col v = (case v of None \<Rightarrow> [] | Some x \<Rightarrow> [(col, x)])"

text \<open>The supplied fields in the canonical order, the social links serialised.\<close>

definition canonical_assignments ::
  "('j \<Rightarrow> string) \<Rightarrow> 'j UserData \<Rightarrow> (string \<times> string) list" where
  "canonical_assignments stringify ud =
     opt_assign ''username'' (username ud) @ opt_assign ''email'' (email ud)
     @ opt_assign ''avatar'' (avatar ud) @ opt_assign ''bio'' (bio ud)
     @ opt_assign ''streamkey'' (streamKey ud)
     @ opt_assign ''socialLinks'' (map_option stringify (socialLinks ud))"

text \<open>One clause per assignment, with consecutive parameter slots from \<open>i\<close> on.\<close>

fun number_clauses :: "nat \<Rightarrow> (string \<times> string) list \<Rightarrow> string list" where
  "number_clauses i [] = []"
| "number_clauses i ((col, v) # rest) =
     (col @ '' = $'' @ show_nat i) # number_clauses (i + 1) rest"

definition built :: "string \<Rightarrow> (string \<times> string) list \<Rightarrow> builder" where
  "built wallet assigns =
     (number_clauses 2 assigns, wallet # map snd assigns, 2 + length assigns)"

definition canonical_columns :: "string list" where
  "canonical_columns =
     [''username'', ''email'', ''avatar'', ''bio'', ''streamkey'', ''socialLinks'']"

text \<open>Which fields a mapping supplies, in the canonical order.\<close>

definition supplied :: "'j UserData \<Rightarrow> bool list" where
  "supplied ud =
     [username ud \<noteq> None, email ud \<noteq> None, avatar ud \<noteq> None, bio ud \<noteq> None,
      streamKey ud \<noteq> None, socialLinks ud \<noteq> None]"

definition supplied_columns :: "bool list \<Rightarrow> string list" where
  "supplied_columns bs = map snd (filter fst (zip bs canonical_columns))"

text \<open>The text between \<^verbatim>\<open>SET\<close> and \<^verbatim>\<open>WHERE\<close> for a list of assigned columns.\<close>

definition set_text_for :: "string list \<Rightarrow> string" where
  "set_text_for cols =
     js_join '', '' (number_clauses 2 (map (\<lambda>c. (c, [])) cols) @ [timestamp_clause])"

subsection \<open>Identity resolution as the specification describes it\<close>

definition identity_by_priority ::
  "string option \<Rightarrow> string option \<Rightarrow> string option \<Rightarrow> string option" where
  "identity_by_priority queryParam header formField =
     (if truthy queryParam then queryParam
      else if truthy header then header
      else if truthy formField then formField
      else None)"

subsection \<open>A small platform for concrete runs\<close>

text \<open>
  The JSON values of the concrete runs are the empty array and the empty object; the
  parser knows their two texts and rejects every other text. The URL parser handles
  \<^verbatim>\<open>https\<close> URLs without query and fragment: the pathname starts at the first slash after
  the host. The database holds one user, whose wallet is \<^verbatim>\<open>0xabc\<close>.
\<close>

datatype json = EmptyArray | EmptyObject

definition example_parse :: "string \<Rightarrow> json option" where
  "example_parse t =
     (if t = ''[]'' then Some EmptyArray else if t = ''{}'' then Some EmptyObject else None)"

definition example_stringify :: "json \<Rightarrow> string" where
  "example_stringify j = (case j of EmptyArray \<Rightarrow> ''[]'' | EmptyObject \<Rightarrow> ''{}'')"

definition example_pathname :: "string \<Rightarrow> string option" where
  "example_pathname url =
     (if prefix ''https://'' url
      then Some (dropWhile (\<lambda>c. c \<noteq> CHR ''/'') (drop 8 url))
      else None)"

definition example_query :: "string \<Rightarrow> string list \<Rightarrow> row list option" where
  "example_query q vals =
     (if q = exists_query then Some [[(''exists'', DBool (vals = [''0xabc'']))]]
      else Some [[(''wallet'', DText ''0xabc'')]])"

definition example_url :: string where
  "example_url = ''https://res.cloudinary.com/demo/image/upload/v1/user_avatars/abc123.jpg''"

definition example_env :: "json platform" where
  "example_env =
     \<lparr>pool_query = example_query,
      upload_stream = (\<lambda>buffer. Some example_url),
      destroy = (\<lambda>publicId. True),
      JSON_parse = example_parse,
      Array_isArray = (\<lambda>j. j = EmptyArray),
      JSON_stringify = example_stringify,
      URL_pathname = example_pathname\<rparr>"

text \<open>The same platform with an image store that rejects every upload.\<close>

definition failing_store_env :: "json platform" where
  "failing_store_env = example_env\<lparr>upload_stream := (\<lambda>buffer. None)\<rparr>"

text \<open>A file system holding the temporary file of one decoded avatar part.\<close>

definition example_fs :: filesystem where
  "example_fs = (\<lambda>path. if path = ''/tmp/avatar_1.png'' then Some ''PNG'' else None)"

definition no_fields :: Fields where
  "no_fields = (\<lambda>k. None)"

definition no_files :: Files where
  "no_files = (\<lambda>k. None)"

definition avatar_file :: Files where
  "avatar_file =
     (\<lambda>k. if k = ''avatar'' then Some (One \<lparr>filepath = ''/tmp/avatar_1.png''\<rparr>) else None)"

text \<open>A \<^verbatim>\<open>PUT\<close> request for the wallet \<^verbatim>\<open>0xabc\<close>, named in the query string.\<close>

definition put_request :: "Fields \<Rightarrow> Files \<Rightarrow> request" where
  "put_request flds files =
     \<lparr>req_method = ''PUT'',
      query = (\<lambda>k. if k = ''wallet'' then Some ''0xabc'' else None),
      authorization = None,
      form = Some (flds, files)\<rparr>"

subsection \<open>Reading a text field of the mapping by the name of its form field\<close>

definition text_field_of :: "string \<Rightarrow> 'j UserData \<Rightarrow> string option" where
  "text_field_of k ud =
     (if k = ''username'' then username ud
      else if k = ''email'' then email ud
      else if k = ''bio'' then bio ud
      else if k = ''streamKey'' then streamKey ud
      else None)"

text \<open>The column that \<^verbatim>\<open>updateUser\<close> assigns for a text field of the form.\<close>

definition column_of_field :: "string \<Rightarrow> string" where
  "column_of_field k = (if k = ''streamKey'' then ''streamkey'' else k)"

section \<open>Properties of the update builder\<close>

lemma number_clauses_snoc:
  "number_clauses i (as @ [(c, v)]) =
     number_clauses i as @ [c @ '' = $'' @ show_nat (i + length as)]"
  by (induction as arbitrary: i) auto

lemma push_field_built:
  "push_field col v (built w as) = built w (as @ opt_assign col v)"
  by (cases v) (simp_all add: push_field_def built_def opt_assign_def number_clauses_snoc)

lemma build_fields_built: "build_fields s w ud = built w (canonical_assignments s ud)"
proof -
  have start: "([], [w], 2) = built w []" by (simp add: built_def)
  show ?thesis
    unfolding build_fields_def Let_def start push_field_built canonical_assignments_def
    by simp
qed

lemma setClauses_of_eq:
  "setClauses_of s w ud = number_clauses 2 (canonical_assignments s ud) @ [timestamp_clause]"
  by (simp add: setClauses_of_def build_fields_built built_def)

lemma values_of_eq: "values_of s w ud = w # map snd (canonical_assignments s ud)"
  by (simp add: values_of_def build_fields_built built_def)

lemma number_clauses_cols:
  "number_clauses i as = number_clauses i (map (\<lambda>c. (c, [])) (map fst as))"
  by (induction as arbitrary: i) auto

lemma fst_opt_assign: "map fst (opt_assign col v) = (if v \<noteq> None then [col] else [])"
  by (cases v) (simp_all add: opt_assign_def)

lemma assigned_columns:
  "map fst (canonical_assignments s ud) = supplied_columns (supplied ud)"
  by (simp add: canonical_assignments_def fst_opt_assign supplied_columns_def supplied_def
      canonical_columns_def)

lemma set_text_eq: "set_text s w ud = set_text_for (supplied_columns (supplied ud))"
  unfolding set_text_def setClauses_of_eq set_text_for_def
  using number_clauses_cols[of 2 "canonical_assignments s ud"]
  by (simp add: assigned_columns)

lemma supplied_cases:
  "\<exists>b1 b2 b3 b4 b5 b6. supplied ud = [b1, b2, b3, b4, b5, b6]"
  by (simp add: supplied_def)

text \<open>The 64 possible texts between \<^verbatim>\<open>SET\<close> and \<^verbatim>\<open>WHERE\<close>, checked one by one.\<close>

lemma set_text_scan:
  "\<forall>b1 b2 b3 b4 b5 b6.
     (\<forall>c \<in> set canonical_columns.
        c \<notin> set (supplied_columns [b1, b2, b3, b4, b5, b6]) \<longrightarrow>
        \<not> sublist c (set_text_for (supplied_columns [b1, b2, b3, b4, b5, b6])))
     \<and> \<not> sublist ''wallet'' (set_text_for (supplied_columns [b1, b2, b3, b4, b5, b6]))
     \<and> \<not> sublist ''$1'' (set_text_for (supplied_columns [b1, b2, b3, b4, b5, b6]))"
  by code_simp

lemma set_text_flags:
  obtains bs where "set_text s w ud = set_text_for (supplied_columns bs)"
    and "supplied ud = bs"
    and "\<forall>c \<in> set canonical_columns.
           c \<notin> set (supplied_columns bs) \<longrightarrow> \<not> sublist c (set_text_for (supplied_columns bs))"
    and "\<not> sublist ''wallet'' (set_text_for (supplied_columns bs))"
    and "\<not> sublist ''$1'' (set_text_for (supplied_columns bs))"
proof -
  obtain b1 b2 b3 b4 b5 b6 where b: "supplied ud = [b1, b2, b3, b4, b5, b6]"
    using supplied_cases by blast
  show ?thesis
    using that[of "[b1, b2, b3, b4, b5, b6]"] set_text_scan b set_text_eq[of s w ud]
    by simp
qed

lemma unsupplied_column_absent:
  assumes "c \<in> set canonical_columns"
    and "c \<notin> fst ` set (canonical_assignments s ud)"
  shows "\<not> sublist c (set_text s w ud)"
proof -
  obtain bs where t: "set_text s w ud = set_text_for (supplied_columns bs)"
    and b: "supplied ud = bs"
    and scan: "\<forall>c \<in> set canonical_columns.
           c \<notin> set (supplied_columns bs) \<longrightarrow> \<not> sublist c (set_text_for (supplied_columns bs))"
    by (rule set_text_flags)
  have "set (map fst (canonical_assignments s ud)) = set (supplied_columns (supplied ud))"
    by (simp only: assigned_columns)
  then have cols: "fst ` set (canonical_assignments s ud) = set (supplied_columns bs)"
    using b by simp
  show ?thesis using assms scan unfolding cols t by blast
qed

lemma fst_set_opt_assign: "fst ` set (opt_assign c v) = (if v = None then {} else {c})"
  by (cases v) (simp_all add: opt_assign_def)

lemma assigned_iff:
  "c \<in> fst ` set (canonical_assignments s ud) \<longleftrightarrow>
     (c = ''username'' \<and> username ud \<noteq> None) \<or> (c = ''email'' \<and> email ud \<noteq> None)
     \<or> (c = ''avatar'' \<and> avatar ud \<noteq> None) \<or> (c = ''bio'' \<and> bio ud \<noteq> None)
     \<or> (c = ''streamkey'' \<and> streamKey ud \<noteq> None)
     \<or> (c = ''socialLinks'' \<and> socialLinks ud \<noteq> None)"
  unfolding canonical_assignments_def set_append image_Un fst_set_opt_assign
  by auto

text \<open>
  C1 (amended). For every update mapping over the fields username, email, avatar, bio,
  streamKey and socialLinks, in particular every non-empty one, \<^verbatim>\<open>updateUser\<close> builds
  one \<^verbatim>\<open>UPDATE\<close> statement. Its \<^verbatim>\<open>SET\<close> clauses are exactly one assignment per supplied
  field, in the canonical order username, email, avatar, bio, streamKey, socialLinks, the
  k-th of them written with the parameter slot k + 1 and its value (the social links
  serialised with \<^verbatim>\<open>JSON.stringify\<close>) stored at that slot of the parameter array, whose
  first slot holds the wallet; one clause \<^verbatim>\<open>updated_at = CURRENT_TIMESTAMP\<close> without a
  parameter follows them. The column of a field that is not supplied occurs nowhere
  between \<^verbatim>\<open>SET\<close> and \<^verbatim>\<open>WHERE\<close>. (It is still named after \<^verbatim>\<open>RETURNING\<close>, which lists
  every column.)
\<close>

theorem updateUser_statement_shape:
  "setClauses_of s w ud =
     number_clauses 2 (canonical_assignments s ud) @ [''updated_at = CURRENT_TIMESTAMP'']
   \<and> values_of s w ud = w # map snd (canonical_assignments s ud)
   \<and> query_of s w ud =
       query_head @ js_join '', '' (setClauses_of s w ud) @ query_where @ query_returning
   \<and> (\<forall>c \<in> set canonical_columns.
         c \<notin> fst ` set (canonical_assignments s ud) \<longrightarrow> \<not> sublist c (set_text s w ud))"
proof -
  have unsupplied: "\<forall>c \<in> set canonical_columns.
         c \<notin> fst ` set (canonical_assignments s ud) \<longrightarrow> \<not> sublist c (set_text s w ud)"
    using unsupplied_column_absent by blast
  have clauses: "setClauses_of s w ud =
     number_clauses 2 (canonical_assignments s ud) @ [''updated_at = CURRENT_TIMESTAMP'']"
    by (simp add: setClauses_of_eq timestamp_clause_def)
  have shape: "query_of s w ud =
       query_head @ js_join '', '' (setClauses_of s w ud) @ query_where @ query_returning"
    by (simp add: query_of_def set_text_def)
  show ?thesis using clauses values_of_eq shape unsupplied by blast
qed

theorem updateUser_statement_shape_witness:
  "setClauses_of example_stringify ''0xabc''
     \<lparr>username = Some ''nova'', email = None, avatar = None, bio = Some ''hi'',
      streamKey = None, socialLinks = Some EmptyArray\<rparr>
     = [''username = $2'', ''bio = $3'', ''socialLinks = $4'', ''updated_at = CURRENT_TIMESTAMP'']
   \<and> values_of example_stringify ''0xabc''
     \<lparr>username = Some ''nova'', email = None, avatar = None, bio = Some ''hi'',
      streamKey = None, socialLinks = Some EmptyArray\<rparr>
     = [''0xabc'', ''nova'', ''hi'', ''[]'']
   \<and> \<not> sublist ''email''
         (set_text example_stringify ''0xabc''
            \<lparr>username = Some ''nova'', email = None, avatar = None, bio = Some ''hi'',
             streamKey = None, socialLinks = Some EmptyArray\<rparr>)"
  using updateUser_statement_shape[of example_stringify "''0xabc''"
      "\<lparr>username = Some ''nova'', email = None, avatar = None, bio = Some ''hi'',
        streamKey = None, socialLinks = Some EmptyArray\<rparr>"]
  by (simp add: canonical_assignments_def opt_assign_def show_nat.simps digit_char_def
      canonical_columns_def example_stringify_def)

text \<open>
  C1 as stated fails: with only the username supplied, the column \<^verbatim>\<open>email\<close> of a field
  that is not supplied does appear in the statement, after \<^verbatim>\<open>RETURNING\<close>.
\<close>

theorem unsupplied_column_in_returning:
  "email \<lparr>username = Some ''nova'', email = None, avatar = None, bio = None,
          streamKey = None, socialLinks = (None :: json option)\<rparr> = None
   \<and> sublist ''email''
        (query_of example_stringify ''0xabc''
           \<lparr>username = Some ''nova'', email = None, avatar = None, bio = None,
            streamKey = None, socialLinks = None\<rparr>)"
  by code_simp

text \<open>
  C7. The text of the statement depends only on which fields the mapping supplies: two
  mappings that supply the same fields give the same text, character for character,
  whatever the values, the wallet and the serialiser are. The values travel in the
  parameter array only: the wallet first, then the value of each supplied field in the
  canonical order.
\<close>

theorem updateUser_text_independent_of_values:
  assumes "supplied ud1 = supplied ud2"
  shows "query_of s1 w1 ud1 = query_of s2 w2 ud2
         \<and> values_of s1 w1 ud1 = w1 # map snd (canonical_assignments s1 ud1)
         \<and> values_of s2 w2 ud2 = w2 # map snd (canonical_assignments s2 ud2)"
  using assms by (simp add: query_of_def set_text_eq values_of_eq)

theorem updateUser_text_independent_of_values_witness:
  "supplied \<lparr>username = Some ''nova'', email = None, avatar = None, bio = Some ''hi'',
             streamKey = None, socialLinks = (None :: json option)\<rparr>
     = supplied \<lparr>username = Some ''x, wallet = $2'', email = None, avatar = None,
                 bio = Some '''', streamKey = None, socialLinks = (None :: json option)\<rparr>
   \<and> query_of example_stringify ''0xabc''
        \<lparr>username = Some ''nova'', email = None, avatar = None, bio = Some ''hi'',
         streamKey = None, socialLinks = None\<rparr>
     = query_of example_stringify ''0xdef''
        \<lparr>username = Some ''x, wallet = $2'', email = None, avatar = None,
         bio = Some '''', streamKey = None, socialLinks = None\<rparr>
   \<and> values_of example_stringify ''0xdef''
        \<lparr>username = Some ''x, wallet = $2'', email = None, avatar = None,
         bio = Some '''', streamKey = None, socialLinks = None\<rparr>
     = [''0xdef'', ''x, wallet = $2'', '''']"
  using updateUser_text_independent_of_values[of
      "\<lparr>username = Some ''nova'', email = None, avatar = None, bio = Some ''hi'',
        streamKey = None, socialLinks = (None :: json option)\<rparr>"
      "\<lparr>username = Some ''x, wallet = $2'', email = None, avatar = None,
        bio = Some '''', streamKey = None, socialLinks = (None :: json option)\<rparr>"
      example_stringify "''0xabc''" example_stringify "''0xdef''"]
  by (simp add: supplied_def canonical_assignments_def opt_assign_def)

text \<open>
  C8. Whatever the mapping, the text between \<^verbatim>\<open>SET\<close> and \<^verbatim>\<open>WHERE\<close> never names the
  column \<^verbatim>\<open>wallet\<close> and never uses the slot \<^verbatim>\<open>$1\<close>; it does not depend on the wallet at
  all. The wallet is the first entry of the parameter array, and the only use of its slot
  is the clause \<^verbatim>\<open>WHERE wallet = $1\<close> that follows the assignments. No assignment can
  therefore change the wallet column of a row.
\<close>

theorem updateUser_never_assigns_wallet:
  "\<not> sublist ''wallet'' (set_text s w ud)
   \<and> \<not> sublist ''$1'' (set_text s w ud)
   \<and> set_text s w ud = set_text s w' ud
   \<and> values_of s w ud ! 0 = w
   \<and> query_of s w ud =
       query_head @ set_text s w ud @ [CHR 0x0A] @ ''    WHERE wallet = $1'' @ [CHR 0x0A]
       @ query_returning
   \<and> \<not> sublist ''$1'' query_head \<and> \<not> sublist ''$1'' query_returning"
proof -
  obtain bs where t: "set_text s w ud = set_text_for (supplied_columns bs)"
    and nw: "\<not> sublist ''wallet'' (set_text_for (supplied_columns bs))"
    and ns: "\<not> sublist ''$1'' (set_text_for (supplied_columns bs))"
    by (rule set_text_flags)
  have indep: "set_text s w ud = set_text s w' ud"
    by (simp add: set_text_eq)
  have first: "values_of s w ud ! 0 = w"
    by (simp add: values_of_eq)
  have shape: "query_of s w ud =
       query_head @ set_text s w ud @ [CHR 0x0A] @ ''    WHERE wallet = $1'' @ [CHR 0x0A]
       @ query_returning"
    by (simp add: query_of_def query_where_def)
  have frame: "\<not> sublist ''$1'' query_head \<and> \<not> sublist ''$1'' query_returning"
    by code_simp
  show ?thesis using nw ns indep first shape frame unfolding t by blast
qed

theorem updateUser_never_assigns_wallet_witness:
  "\<not> sublist ''wallet''
       (set_text example_stringify ''0xabc''
          \<lparr>username = Some ''wallet'', email = None, avatar = None, bio = None,
           streamKey = None, socialLinks = None\<rparr>)
   \<and> values_of example_stringify ''0xabc''
        \<lparr>username = Some ''wallet'', email = None, avatar = None, bio = None,
         streamKey = None, socialLinks = None\<rparr> ! 0 = ''0xabc''"
  using updateUser_never_assigns_wallet[of example_stringify "''0xabc''"
      "\<lparr>username = Some ''wallet'', email = None, avatar = None, bio = None,
        streamKey = None, socialLinks = None\<rparr>" "''0xabc''"]
  by simp

section \<open>Properties of the handler\<close>

lemma js_replace_prefix:
  "pat \<noteq> [] \<Longrightarrow> prefix pat h \<Longrightarrow> js_replace pat rep h = rep @ drop (length pat) h"
  by (cases h) auto

lemma js_replace_absent: "\<not> sublist pat h \<Longrightarrow> js_replace pat rep h = h"
proof (induction h)
  case Nil
  then show ?case by auto
next
  case (Cons c cs)
  have np: "\<not> prefix pat (c # cs)" using Cons.prems by (meson prefix_imp_sublist)
  have "\<not> sublist pat cs" using Cons.prems by (meson sublist_Cons_right)
  then show ?case using Cons.IH np by simp
qed

lemma prefix_within:
  assumes "prefix p (x @ y @ z)" "length p \<le> length (x @ y)"
  shows "prefix p (x @ y)"
proof -
  from assms(1) obtain r where r: "x @ y @ z = p @ r" by (auto simp: prefix_def)
  then have "take (length p) ((x @ y) @ z) = p" by simp
  then have "take (length p) (x @ y) = p" using assms(2) by (simp del: append_assoc)
  then show ?thesis by (metis take_is_prefix)
qed

text \<open>The first occurrence is the one replaced: no occurrence starts inside \<open>a\<close>.\<close>

lemma js_replace_first:
  "\<not> sublist pat (a @ butlast pat) \<Longrightarrow> pat \<noteq> [] \<Longrightarrow>
   js_replace pat rep (a @ pat @ b) = a @ rep @ b"
proof (induction a)
  case Nil
  then show ?case by (cases pat) auto
next
  case (Cons c cs)
  have np: "\<not> prefix pat (c # cs @ pat @ b)"
  proof
    assume p: "prefix pat (c # cs @ pat @ b)"
    have split: "c # cs @ pat @ b = (c # cs) @ butlast pat @ ([last pat] @ b)"
      using Cons.prems(2) by simp
    have len: "length pat \<le> length ((c # cs) @ butlast pat)"
      using Cons.prems(2) by (cases pat) auto
    have "prefix pat ((c # cs) @ butlast pat)"
      using prefix_within[of pat "c # cs" "butlast pat" "[last pat] @ b"] p len
      unfolding split[symmetric] by blast
    then show False using Cons.prems(1) by (meson prefix_imp_sublist)
  qed
  have "\<not> sublist pat (cs @ butlast pat)"
    using Cons.prems(1) by (metis append_Cons sublist_Cons_right)
  then show ?case using Cons np by simp
qed

lemma resolveWallet_priority:
  "(case resolveWallet req flds of
      None \<Rightarrow> None
    | Some w \<Rightarrow> if w = [] then None else Some w) =
     identity_by_priority (query req ''wallet'')
       (map_option (js_replace ''Bearer '' []) (authorization req))
       (first_value flds ''wallet'')"
  by (auto simp: resolveWallet_def identity_by_priority_def js_or_def truthy_def
      split: option.splits)

lemma handler_identity:
  assumes "req_method req = ''PUT'' \<or> req_method req = ''PATCH''"
    and "form req = Some (flds, files)"
  shows "handler env fs req =
           (case identity_by_priority (query req ''wallet'')
                   (map_option (js_replace ''Bearer '' []) (authorization req))
                   (first_value flds ''wallet'') of
              None \<Rightarrow> ((400, ErrorBody ''Wallet address is required''), [], fs)
            | Some wallet \<Rightarrow> withWallet env fs wallet flds files)"
proof -
  have "handler env fs req =
      (case (case resolveWallet req flds of
               None \<Rightarrow> None
             | Some w \<Rightarrow> if w = [] then None else Some w) of
         None \<Rightarrow> ((400, ErrorBody ''Wallet address is required''), [], fs)
       | Some wallet \<Rightarrow> withWallet env fs wallet flds files)"
    using assms by (auto simp: handler_def parseFormData_def split: option.splits)
  then show ?thesis by (simp only: resolveWallet_priority)
qed

lemma handler_resolved:
  assumes "req_method req = ''PUT'' \<or> req_method req = ''PATCH''"
    and "form req = Some (flds, files)"
    and "resolveWallet req flds = Some wallet" and "wallet \<noteq> []"
  shows "handler env fs req = withWallet env fs wallet flds files"
  using assms by (auto simp: handler_def parseFormData_def)

lemma checkUserExists_events:
  "snd (checkUserExists env wallet) = [PoolQuery exists_query [wallet]]"
  by (simp add: checkUserExists_def)

lemma withWallet_existing:
  assumes "fst (checkUserExists env wallet) = Some True"
  shows "withWallet env fs wallet flds files =
     (case fieldsStep env flds of
        Inl resp \<Rightarrow> (resp, [PoolQuery exists_query [wallet]], fs)
      | Inr userData \<Rightarrow>
          (case avatarStep env fs files userData of
             (Thrown, evs2, fs2) \<Rightarrow> (update_failed, PoolQuery exists_query [wallet] # evs2, fs2)
           | (Respond resp, evs2, fs2) \<Rightarrow> (resp, PoolQuery exists_query [wallet] # evs2, fs2)
           | (Continue userData2, evs2, fs2) \<Rightarrow>
               (case persist env wallet userData2 of
                  (resp, evs3) \<Rightarrow>
                    (resp, PoolQuery exists_query [wallet] # evs2 @ evs3, fs2))))"
proof -
  have "checkUserExists env wallet = (Some True, [PoolQuery exists_query [wallet]])"
    using assms checkUserExists_events[of env wallet] by (metis prod.collapse)
  then show ?thesis
    by (simp add: withWallet_def split: sum.splits prod.splits outcome.splits)
qed

lemma first_value_upd: "k \<noteq> k' \<Longrightarrow> first_value (flds(k := v)) k' = first_value flds k'"
  by (simp add: first_value_def)

lemma textField_upd: "k \<noteq> k' \<Longrightarrow> textField (flds(k := v)) k' = textField flds k'"
  by (simp add: textField_def first_value_upd)

lemma first_value_removed: "first_value (flds(k := None)) k = None"
  by (simp add: first_value_def)

lemma textField_removed: "textField (flds(k := None)) k = None"
  by (simp add: textField_def first_value_removed)

lemma textField_empty: "flds k = Some ([] # rest) \<Longrightarrow> textField flds k = None"
  by (simp add: textField_def first_value_def truthy_def)

lemma withWallet_fields_cong:
  assumes "fieldsStep env flds' = fieldsStep env flds"
  shows "withWallet env fs w flds' files = withWallet env fs w flds files"
  unfolding withWallet_def assms ..

lemma handler_fields_cong:
  assumes "form req = Some (flds, files)"
    and "resolveWallet req flds' = resolveWallet req flds"
    and "fieldsStep env flds' = fieldsStep env flds"
  shows "handler env fs (req\<lparr>form := Some (flds', files)\<rparr>) = handler env fs req"
proof -
  have r: "resolveWallet (req\<lparr>form := Some (flds', files)\<rparr>) flds' = resolveWallet req flds"
    using assms(2) by (simp add: resolveWallet_def)
  have m: "req_method (req\<lparr>form := Some (flds', files)\<rparr>) = req_method req" by simp
  have p: "parseFormData (req\<lparr>form := Some (flds', files)\<rparr>) = Some (flds', files)"
    "parseFormData req = Some (flds, files)"
    using assms(1) by (simp_all add: parseFormData_def)
  show ?thesis
    unfolding handler_def m p option.case prod.case r withWallet_fields_cong[OF assms(3)] ..
qed

lemma fieldsStep_cases:
  "fieldsStep env flds = Inl (400, ErrorBody ''Invalid social links format'')
   \<or> fieldsStep env flds =
        Inr \<lparr>username = textField flds ''username'', email = textField flds ''email'',
             avatar = None, bio = textField flds ''bio'',
             streamKey = textField flds ''streamKey'', socialLinks = None\<rparr>
   \<or> (\<exists>j. fieldsStep env flds =
        Inr \<lparr>username = textField flds ''username'', email = textField flds ''email'',
             avatar = None, bio = textField flds ''bio'',
             streamKey = textField flds ''streamKey'', socialLinks = Some j\<rparr>)"
  by (simp add: fieldsStep_def Let_def split: option.splits)

lemma fieldsStep_text:
  assumes "fieldsStep env flds = Inr ud"
  shows "username ud = textField flds ''username'' \<and> email ud = textField flds ''email''
     \<and> bio ud = textField flds ''bio'' \<and> streamKey ud = textField flds ''streamKey''"
proof -
  have "ud = \<lparr>username = textField flds ''username'', email = textField flds ''email'',
             avatar = None, bio = textField flds ''bio'',
             streamKey = textField flds ''streamKey'', socialLinks = None\<rparr>
      \<or> (\<exists>j. ud = \<lparr>username = textField flds ''username'', email = textField flds ''email'',
             avatar = None, bio = textField flds ''bio'',
             streamKey = textField flds ''streamKey'', socialLinks = Some j\<rparr>)"
    using fieldsStep_cases[of env flds] unfolding assms by simp
  then show ?thesis by (elim disjE exE) simp_all
qed

lemma textField_nonempty: "textField flds k \<noteq> Some []"
  by (simp add: textField_def truthy_def split: option.splits)

lemma textField_falsy: "\<not> truthy (first_value flds k) \<Longrightarrow> textField flds k = None"
  by (simp add: textField_def)

lemma fieldsStep_nothing:
  assumes "\<forall>k' \<in> {''username'', ''email'', ''bio'', ''streamKey'', ''socialLinks''}.
             \<not> truthy (first_value flds k')"
  shows "fieldsStep env flds = Inr emptyUserData"
proof -
  have t: "textField flds ''username'' = None" "textField flds ''email'' = None"
     "textField flds ''bio'' = None" "textField flds ''streamKey'' = None"
    using assms by (simp_all add: textField_falsy)
  have "\<not> truthy (first_value flds ''socialLinks'')" using assms by simp
  then have s: "first_value flds ''socialLinks'' = None \<or> first_value flds ''socialLinks'' = Some []"
    by (cases "first_value flds ''socialLinks''") (simp_all add: truthy_def)
  then show ?thesis
    by (elim disjE) (simp_all add: fieldsStep_def t emptyUserData_def)
qed

lemma query_of_not_exists_query: "query_of s w ud \<noteq> exists_query"
  by (simp add: query_of_def query_head_def exists_query_def)

lemma example_exists: "fst (checkUserExists example_env ''0xabc'') = Some True"
  by (simp add: checkUserExists_def example_env_def example_query_def db_truthy_def)

text \<open>The definitions a concrete run of the handler unfolds.\<close>

lemmas run_defs =
  handler_def parseFormData_def resolveWallet_def js_or_def truthy_def first_value_def
  withWallet_def checkUserExists_def fieldsStep_def textField_def avatarStep_def
  uploadImage_def unlinkSync_def persist_def no_keys_def updateUser_def update_failed_def
  example_env_def failing_store_env_def example_query_def example_parse_def db_truthy_def
  example_fs_def no_fields_def no_files_def avatar_file_def put_request_def Let_def
  query_of_not_exists_query

text \<open>
  C2 (amended). For every \<^verbatim>\<open>PUT\<close> or \<^verbatim>\<open>PATCH\<close> request whose form decodes, the identity
  is chosen by strict priority: the query parameter \<^verbatim>\<open>wallet\<close> if non-empty, otherwise
  the \<^verbatim>\<open>Authorization\<close> header value with the first occurrence of the text
  \<^verbatim>\<open>Bearer \<close> removed, if the result is non-empty, otherwise the first value of the form
  field \<^verbatim>\<open>wallet\<close>. When all three yield nothing the handler answers 400
  (wallet address required), makes no call and leaves the file system as it was;
  otherwise it goes on with the chosen identity. Removing the first occurrence strips
  the prefix of a value that starts with \<^verbatim>\<open>Bearer \<close> and leaves a value without that
  text unchanged; an occurrence further inside the value is removed as well.
\<close>

theorem identity_resolution_priority:
  assumes "req_method req = ''PUT'' \<or> req_method req = ''PATCH''"
    and "form req = Some (flds, files)"
  shows "handler env fs req =
           (case identity_by_priority (query req ''wallet'')
                   (map_option (js_replace ''Bearer '' []) (authorization req))
                   (first_value flds ''wallet'') of
              None \<Rightarrow> ((400, ErrorBody ''Wallet address is required''), [], fs)
            | Some wallet \<Rightarrow> withWallet env fs wallet flds files)
         \<and> (\<forall>h. prefix ''Bearer '' h \<longrightarrow> js_replace ''Bearer '' [] h = drop 7 h)
         \<and> (\<forall>h. \<not> sublist ''Bearer '' h \<longrightarrow> js_replace ''Bearer '' [] h = h)
         \<and> (\<forall>a b. \<not> sublist ''Bearer '' (a @ ''Bearer'') \<longrightarrow>
                js_replace ''Bearer '' [] (a @ ''Bearer '' @ b) = a @ b)"
proof -
  have strip: "\<forall>h. prefix ''Bearer '' h \<longrightarrow> js_replace ''Bearer '' [] h = drop 7 h"
    using js_replace_prefix[of "''Bearer ''" _ "[]"] by (simp add: eval_nat_numeral)
  have keep: "\<forall>h. \<not> sublist ''Bearer '' h \<longrightarrow> js_replace ''Bearer '' [] h = h"
    using js_replace_absent by blast
  have inner: "\<forall>a b. \<not> sublist ''Bearer '' (a @ ''Bearer'') \<longrightarrow>
                js_replace ''Bearer '' [] (a @ ''Bearer '' @ b) = a @ b"
    using js_replace_first[of "''Bearer ''" _ "[]"] by simp
  show ?thesis using handler_identity[OF assms] strip keep inner by blast
qed

theorem identity_resolution_priority_witness:
  "handler example_env example_fs
     \<lparr>req_method = ''PATCH'',
      query = (\<lambda>k. if k = ''wallet'' then Some ''0xabc'' else None),
      authorization = Some ''Bearer 0xdef'',
      form = Some ((\<lambda>k. if k = ''wallet'' then Some [''0x123''] else None), no_files)\<rparr>
   = withWallet example_env example_fs ''0xabc''
       (\<lambda>k. if k = ''wallet'' then Some [''0x123''] else None) no_files
   \<and> js_replace ''Bearer '' [] ''Bearer 0xdef'' = ''0xdef''
   \<and> js_replace ''Bearer '' [] ''0xdef'' = ''0xdef''
   \<and> js_replace ''Bearer '' [] ''Token Bearer 0xdef'' = ''Token 0xdef''"
proof -
  have m: "req_method
      \<lparr>req_method = ''PATCH'',
        query = (\<lambda>k. if k = ''wallet'' then Some ''0xabc'' else None),
        authorization = Some ''Bearer 0xdef'',
        form = Some ((\<lambda>k. if k = ''wallet'' then Some [''0x123''] else None), no_files)\<rparr>
      = ''PUT''
    \<or> req_method
      \<lparr>req_method = ''PATCH'',
        query = (\<lambda>k. if k = ''wallet'' then Some ''0xabc'' else None),
        authorization = Some ''Bearer 0xdef'',
        form = Some ((\<lambda>k. if k = ''wallet'' then Some [''0x123''] else None), no_files)\<rparr>
      = ''PATCH''"
    by simp
  have f: "form
      \<lparr>req_method = ''PATCH'',
        query = (\<lambda>k. if k = ''wallet'' then Some ''0xabc'' else None),
        authorization = Some ''Bearer 0xdef'',
        form = Some ((\<lambda>k. if k = ''wallet'' then Some [''0x123''] else None), no_files)\<rparr>
      = Some ((\<lambda>k. if k = ''wallet'' then Some [''0x123''] else None), no_files)"
    by simp
  note t = identity_resolution_priority[OF m f, of example_env example_fs]
  have run: "handler example_env example_fs
     \<lparr>req_method = ''PATCH'',
      query = (\<lambda>k. if k = ''wallet'' then Some ''0xabc'' else None),
      authorization = Some ''Bearer 0xdef'',
      form = Some ((\<lambda>k. if k = ''wallet'' then Some [''0x123''] else None), no_files)\<rparr>
   = withWallet example_env example_fs ''0xabc''
       (\<lambda>k. if k = ''wallet'' then Some [''0x123''] else None) no_files"
    using t by (simp add: identity_by_priority_def truthy_def)
  have p: "prefix ''Bearer '' ''Bearer 0xdef''" by code_simp
  have strip: "js_replace ''Bearer '' [] ''Bearer 0xdef'' = ''0xdef''"
    using t p by simp
  have a: "\<not> sublist ''Bearer '' ''0xdef''" by code_simp
  have keep: "js_replace ''Bearer '' [] ''0xdef'' = ''0xdef''"
    using t a by simp
  have b: "\<not> sublist ''Bearer '' (''Token '' @ ''Bearer'')" by code_simp
  have "js_replace ''Bearer '' [] (''Token '' @ ''Bearer '' @ ''0xdef'') = ''Token '' @ ''0xdef''"
    using t b by blast
  then have inner: "js_replace ''Bearer '' [] ''Token Bearer 0xdef'' = ''Token 0xdef''"
    by simp
  show ?thesis using run strip keep inner by blast
qed

text \<open>
  C2 as stated fails: a header value that does not start with \<^verbatim>\<open>Bearer \<close> is not used
  as it is when that text occurs inside it. For the value \<^verbatim>\<open>0xBearer abc\<close>, with no
  query parameter and no form field, the identity is \<^verbatim>\<open>0xabc\<close>: the handler looks that
  wallet up and answers 200, whereas the identity \<^verbatim>\<open>0xBearer abc\<close> names no user.
\<close>

theorem bearer_removed_inside_header:
  "\<not> prefix ''Bearer '' ''0xBearer abc''
   \<and> resolveWallet
        \<lparr>req_method = ''PUT'', query = (\<lambda>k. None), authorization = Some ''0xBearer abc'',
         form = Some ((\<lambda>k. if k = ''username'' then Some [''nova''] else None), no_files)\<rparr>
        (\<lambda>k. if k = ''username'' then Some [''nova''] else None)
      = Some ''0xabc''
   \<and> hd (fst (snd (handler example_env example_fs
        \<lparr>req_method = ''PUT'', query = (\<lambda>k. None), authorization = Some ''0xBearer abc'',
         form = Some ((\<lambda>k. if k = ''username'' then Some [''nova''] else None), no_files)\<rparr>)))
      = PoolQuery exists_query [''0xabc'']
   \<and> fst (fst (handler example_env example_fs
        \<lparr>req_method = ''PUT'', query = (\<lambda>k. None), authorization = Some ''0xBearer abc'',
         form = Some ((\<lambda>k. if k = ''username'' then Some [''nova''] else None), no_files)\<rparr>))
      = 200
   \<and> fst (checkUserExists example_env ''0xBearer abc'') = Some False"
  by (simp add: run_defs)

text \<open>
  C4 (amended). For every \<^verbatim>\<open>PUT\<close> or \<^verbatim>\<open>PATCH\<close> request whose form decodes, whose
  identity resolves and names an existing user, and whose \<^verbatim>\<open>socialLinks\<close> field is
  present and non-empty: when the text of the field fails JSON decoding, the handler
  answers 400 (invalid social links); the existence query is the only call it has made,
  so no avatar upload is attempted and no update statement is executed, and the file
  system is untouched. When the text decodes to a value that is not an array, the handler
  does not fail on that account: it behaves exactly as for the same request without the
  \<^verbatim>\<open>socialLinks\<close> field.
\<close>

theorem social_links_decoding:
  assumes "req_method req = ''PUT'' \<or> req_method req = ''PATCH''"
    and "form req = Some (flds, files)"
    and "resolveWallet req flds = Some wallet" and "wallet \<noteq> []"
    and "fst (checkUserExists env wallet) = Some True"
    and "first_value flds ''socialLinks'' = Some txt" and "txt \<noteq> []"
  shows "(JSON_parse env txt = None \<longrightarrow>
            handler env fs req =
              ((400, ErrorBody ''Invalid social links format''),
               [PoolQuery exists_query [wallet]], fs))
       \<and> (\<forall>j. JSON_parse env txt = Some j \<and> \<not> Array_isArray env j \<longrightarrow>
            handler env fs req =
              handler env fs (req\<lparr>form := Some (flds(''socialLinks'' := None), files)\<rparr>))"
proof -
  have h: "handler env fs req = withWallet env fs wallet flds files"
    using handler_resolved[OF assms(1-4)] .
  have bad: "handler env fs req =
      ((400, ErrorBody ''Invalid social links format''), [PoolQuery exists_query [wallet]], fs)"
    if "JSON_parse env txt = None"
  proof -
    have "fieldsStep env flds = Inl (400, ErrorBody ''Invalid social links format'')"
      using assms(6,7) that by (simp add: fieldsStep_def)
    then show ?thesis
      unfolding h withWallet_existing[OF assms(5)] by simp
  qed
  have other: "handler env fs req =
      handler env fs (req\<lparr>form := Some (flds(''socialLinks'' := None), files)\<rparr>)"
    if "JSON_parse env txt = Some j" "\<not> Array_isArray env j" for j
  proof -
    have f: "fieldsStep env (flds(''socialLinks'' := None)) = fieldsStep env flds"
      using assms(6) that
      by (simp add: fieldsStep_def Let_def textField_upd first_value_removed)
    have r: "resolveWallet req (flds(''socialLinks'' := None)) = resolveWallet req flds"
      by (simp add: resolveWallet_def first_value_upd)
    show ?thesis using handler_fields_cong[OF assms(2) r f] by simp
  qed
  show ?thesis using bad other by blast
qed

theorem social_links_decoding_witness:
  "handler example_env example_fs
     (put_request (\<lambda>k. if k = ''socialLinks'' then Some [''[{'']
                        else if k = ''username'' then Some [''nova''] else None) avatar_file)
   = ((400, ErrorBody ''Invalid social links format''),
      [PoolQuery exists_query [''0xabc'']], example_fs)
   \<and> handler example_env example_fs
        (put_request (\<lambda>k. if k = ''socialLinks'' then Some [''{}''] else None) no_files)
     = handler example_env example_fs
         ((put_request (\<lambda>k. if k = ''socialLinks'' then Some [''{}''] else None) no_files)
            \<lparr>form := Some ((\<lambda>k. if k = ''socialLinks'' then Some [''{}''] else None)
                              (''socialLinks'' := None), no_files)\<rparr>)"
proof -
  have first: "handler example_env example_fs
     (put_request (\<lambda>k. if k = ''socialLinks'' then Some [''[{'']
                        else if k = ''username'' then Some [''nova''] else None) avatar_file)
   = ((400, ErrorBody ''Invalid social links format''),
      [PoolQuery exists_query [''0xabc'']], example_fs)"
    using social_links_decoding[of
        "put_request (\<lambda>k. if k = ''socialLinks'' then Some [''[{'']
                        else if k = ''username'' then Some [''nova''] else None) avatar_file"
        "\<lambda>k. if k = ''socialLinks'' then Some [''[{'']
                        else if k = ''username'' then Some [''nova''] else None"
        avatar_file "''0xabc''" example_env "''[{''" example_fs] example_exists
    by (simp add: put_request_def resolveWallet_def js_or_def truthy_def first_value_def
        example_env_def example_parse_def)
  have second: "handler example_env example_fs
        (put_request (\<lambda>k. if k = ''socialLinks'' then Some [''{}''] else None) no_files)
     = handler example_env example_fs
         ((put_request (\<lambda>k. if k = ''socialLinks'' then Some [''{}''] else None) no_files)
            \<lparr>form := Some ((\<lambda>k. if k = ''socialLinks'' then Some [''{}''] else None)
                              (''socialLinks'' := None), no_files)\<rparr>)"
    using social_links_decoding[of
        "put_request (\<lambda>k. if k = ''socialLinks'' then Some [''{}''] else None) no_files"
        "\<lambda>k. if k = ''socialLinks'' then Some [''{}''] else None"
        no_files "''0xabc''" example_env "''{}''" example_fs] example_exists
    by (simp add: put_request_def resolveWallet_def js_or_def truthy_def first_value_def
        example_env_def example_parse_def)
  show ?thesis using first second by blast
qed

text \<open>
  C4 as stated fails: a \<^verbatim>\<open>socialLinks\<close> text that decodes to an object, not an array,
  does not make the handler fail. The request below is answered 200 and the update
  statement, for the username alone, is executed.
\<close>

theorem non_array_social_links_accepted:
  "example_parse ''{}'' = Some EmptyObject
   \<and> \<not> Array_isArray example_env EmptyObject
   \<and> fst (fst (handler example_env example_fs
        (put_request (\<lambda>k. if k = ''socialLinks'' then Some [''{}'']
                           else if k = ''username'' then Some [''nova''] else None)
           no_files))) = 200
   \<and> fst (snd (handler example_env example_fs
        (put_request (\<lambda>k. if k = ''socialLinks'' then Some [''{}'']
                           else if k = ''username'' then Some [''nova''] else None)
           no_files)))
      = [PoolQuery exists_query [''0xabc''],
         PoolQuery
           (query_of example_stringify ''0xabc''
              \<lparr>username = Some ''nova'', email = None, avatar = None, bio = None,
               streamKey = None, socialLinks = None\<rparr>)
           [''0xabc'', ''nova'']]"
  by (simp add: run_defs values_of_eq canonical_assignments_def opt_assign_def)

text \<open>
  C5 (the code breaks the claim). The request below carries an avatar part whose
  temporary file exists; the image store rejects the upload. The handler answers 500
  (upload failed) without unlinking the file, which is still there afterwards. When the
  store accepts the same upload, the sibling path does unlink it.
\<close>

theorem avatar_file_left_behind_on_upload_failure:
  "fst (handler failing_store_env example_fs (put_request no_fields avatar_file))
     = (500, ErrorBody ''Failed to upload avatar'')
   \<and> fst (snd (handler failing_store_env example_fs (put_request no_fields avatar_file)))
     = [PoolQuery exists_query [''0xabc''], UploadStream ''PNG'']
   \<and> snd (snd (handler failing_store_env example_fs (put_request no_fields avatar_file)))
         ''/tmp/avatar_1.png'' = Some ''PNG''
   \<and> fst (fst (handler example_env example_fs (put_request no_fields avatar_file))) = 200
   \<and> snd (snd (handler example_env example_fs (put_request no_fields avatar_file)))
         ''/tmp/avatar_1.png'' = None"
  by (simp add: run_defs)

text \<open>
  C6 (amended). For every \<^verbatim>\<open>PUT\<close> or \<^verbatim>\<open>PATCH\<close> request whose form decodes, whose
  identity resolves and names an existing user, and in which no recognised field is
  supplied and no avatar file is attached (the built field mapping is empty), the handler
  answers 400 (no update data). No \<^verbatim>\<open>UPDATE\<close> statement is issued for such a request;
  the one query it has sent to the persistence backend by then is the existence check
  for the identity.
\<close>

theorem empty_mapping_rejected_after_existence_check:
  assumes "req_method req = ''PUT'' \<or> req_method req = ''PATCH''"
    and "form req = Some (flds, files)"
    and "resolveWallet req flds = Some wallet" and "wallet \<noteq> []"
    and "fst (checkUserExists env wallet) = Some True"
    and "fieldsStep env flds = Inr ud" and "no_keys ud"
    and "files ''avatar'' = None"
  shows "handler env fs req =
           ((400, ErrorBody ''No update data provided''),
            [PoolQuery ''SELECT EXISTS(SELECT 1 FROM users WHERE wallet = $1)'' [wallet]],
            fs)"
proof -
  have h: "handler env fs req = withWallet env fs wallet flds files"
    using handler_resolved[OF assms(1-4)] .
  have p: "persist env wallet ud = ((400, ErrorBody ''No update data provided''), [])"
    using assms(7) by (simp add: persist_def)
  show ?thesis
    unfolding h withWallet_existing[OF assms(5)]
    by (simp add: assms(6) avatarStep_def assms(8) p exists_query_def)
qed

theorem empty_mapping_rejected_after_existence_check_witness:
  "handler example_env example_fs (put_request no_fields no_files) =
     ((400, ErrorBody ''No update data provided''),
      [PoolQuery ''SELECT EXISTS(SELECT 1 FROM users WHERE wallet = $1)'' [''0xabc'']],
      example_fs)"
proof -
  have f: "fieldsStep example_env no_fields = Inr emptyUserData"
    by (simp add: fieldsStep_def textField_def first_value_def truthy_def no_fields_def
        emptyUserData_def)
  have k: "no_keys (emptyUserData :: json UserData)"
    by (simp add: no_keys_def emptyUserData_def)
  show ?thesis
    using empty_mapping_rejected_after_existence_check[of
        "put_request no_fields no_files" no_fields no_files "''0xabc''" example_env
        emptyUserData example_fs] example_exists f k
    by (simp add: put_request_def resolveWallet_def js_or_def truthy_def first_value_def
        no_fields_def no_files_def)
qed

text \<open>
  C6 as stated fails: for a request without any field and without a file, a query
  against the persistence backend is issued before the handler answers 400.
\<close>

theorem existence_query_precedes_empty_check:
  "fst (handler example_env example_fs (put_request no_fields no_files))
     = (400, ErrorBody ''No update data provided'')
   \<and> PoolQuery ''SELECT EXISTS(SELECT 1 FROM users WHERE wallet = $1)'' [''0xabc'']
       \<in> set (fst (snd (handler example_env example_fs (put_request no_fields no_files))))"
  by (simp add: run_defs exists_query_def)

text \<open>
  C9. A text field (username, email, bio or streamKey) whose first value is the empty
  string is treated exactly as if the field were absent: the field step builds the same
  mapping, in which the field is missing, and the whole run of the handler (response,
  calls and file system) is the one of the request without the field. The column of the
  field occurs in no \<^verbatim>\<open>SET\<close> clause built from that mapping, with or without an
  uploaded avatar added to it. No mapping the field step builds holds the empty string
  for a text field. A request that reaches the field step with only empty text fields
  and no avatar part is answered 400 (no update data), the existence check being its
  only call.
\<close>

theorem empty_text_field_is_absent:
  assumes "k \<in> {''username'', ''email'', ''bio'', ''streamKey''}"
    and "flds k = Some ([] # rest)"
    and "form req = Some (flds, files)"
  shows "fieldsStep env flds = fieldsStep env (flds(k := None))
       \<and> handler env fs req = handler env fs (req\<lparr>form := Some (flds(k := None), files)\<rparr>)
       \<and> (\<forall>ud. fieldsStep env flds = Inr ud \<longrightarrow>
             text_field_of k ud = None
             \<and> (\<forall>u. \<not> sublist (column_of_field k) (set_text s w (ud\<lparr>avatar := u\<rparr>)))
             \<and> username ud \<noteq> Some [] \<and> email ud \<noteq> Some [] \<and> bio ud \<noteq> Some []
             \<and> streamKey ud \<noteq> Some [])
       \<and> ((req_method req = ''PUT'' \<or> req_method req = ''PATCH'')
            \<and> resolveWallet req flds = Some wallet \<and> wallet \<noteq> []
            \<and> fst (checkUserExists env wallet) = Some True
            \<and> (\<forall>k' \<in> {''username'', ''email'', ''bio'', ''streamKey'', ''socialLinks''}.
                  \<not> truthy (first_value flds k'))
            \<and> files ''avatar'' = None
          \<longrightarrow> handler env fs req =
                ((400, ErrorBody ''No update data provided''),
                 [PoolQuery exists_query [wallet]], fs))"
proof -
  have tf: "textField (flds(k := None)) k' = textField flds k'" for k'
    using assms(2)
    by (cases "k = k'") (simp_all add: textField_removed textField_empty textField_upd)
  have fv: "first_value (flds(k := None)) ''socialLinks'' = first_value flds ''socialLinks''"
    using assms(1) by (auto simp: first_value_upd)
  have same: "fieldsStep env (flds(k := None)) = fieldsStep env flds"
    unfolding fieldsStep_def tf fv ..
  have r: "resolveWallet req (flds(k := None)) = resolveWallet req flds"
    using assms(1) by (auto simp: resolveWallet_def first_value_upd)
  have run: "handler env fs req = handler env fs (req\<lparr>form := Some (flds(k := None), files)\<rparr>)"
    using handler_fields_cong[OF assms(3) r same] by simp
  have built: "text_field_of k ud = None
             \<and> (\<forall>u. \<not> sublist (column_of_field k) (set_text s w (ud\<lparr>avatar := u\<rparr>)))
             \<and> username ud \<noteq> Some [] \<and> email ud \<noteq> Some [] \<and> bio ud \<noteq> Some []
             \<and> streamKey ud \<noteq> Some []"
    if "fieldsStep env flds = Inr ud" for ud
  proof -
    note sel = fieldsStep_text[OF that]
    have "textField flds k = None" using assms(2) by (rule textField_empty)
    then have missing: "text_field_of k ud = None"
      using assms(1) sel by (auto simp: text_field_of_def)
    have col: "column_of_field k \<in> set canonical_columns"
      using assms(1) by (auto simp: column_of_field_def canonical_columns_def)
    have "column_of_field k \<notin> fst ` set (canonical_assignments s (ud\<lparr>avatar := u\<rparr>))" for u
      using assms(1) missing
      by (auto simp: assigned_iff column_of_field_def text_field_of_def)
    then have untouched:
      "\<forall>u. \<not> sublist (column_of_field k) (set_text s w (ud\<lparr>avatar := u\<rparr>))"
      using unsupplied_column_absent[OF col] by blast
    show ?thesis using missing untouched sel by (simp add: textField_nonempty)
  qed
  have rejected: "handler env fs req =
        ((400, ErrorBody ''No update data provided''), [PoolQuery exists_query [wallet]], fs)"
    if m: "req_method req = ''PUT'' \<or> req_method req = ''PATCH''"
      and w: "resolveWallet req flds = Some wallet" "wallet \<noteq> []"
      and e: "fst (checkUserExists env wallet) = Some True"
      and none: "\<forall>k' \<in> {''username'', ''email'', ''bio'', ''streamKey'', ''socialLinks''}.
                  \<not> truthy (first_value flds k')"
      and nofile: "files ''avatar'' = None"
  proof -
    have h: "handler env fs req = withWallet env fs wallet flds files"
      using handler_resolved[OF m assms(3) w] .
    have f: "fieldsStep env flds = Inr emptyUserData"
      using none by (rule fieldsStep_nothing)
    have p: "persist env wallet emptyUserData = ((400, ErrorBody ''No update data provided''), [])"
      by (simp add: persist_def no_keys_def emptyUserData_def)
    show ?thesis
      unfolding h withWallet_existing[OF e]
      by (simp add: f avatarStep_def nofile p)
  qed
  show ?thesis
  proof (intro conjI allI impI)
    show "fieldsStep env flds = fieldsStep env (flds(k := None))" using same by simp
    show "handler env fs req = handler env fs (req\<lparr>form := Some (flds(k := None), files)\<rparr>)"
      using run .
  qed (use built rejected in blast)+
qed

theorem empty_text_field_is_absent_witness:
  "handler example_env example_fs
     (put_request (\<lambda>k. if k = ''bio'' then Some [[]] else None) no_files)
   = handler example_env example_fs
       ((put_request (\<lambda>k. if k = ''bio'' then Some [[]] else None) no_files)
          \<lparr>form := Some ((\<lambda>k. if k = ''bio'' then Some [[]] else None)(''bio'' := None),
                          no_files)\<rparr>)
   \<and> handler example_env example_fs
       (put_request (\<lambda>k. if k = ''bio'' then Some [[]] else None) no_files)
     = ((400, ErrorBody ''No update data provided''),
        [PoolQuery exists_query [''0xabc'']], example_fs)"
proof -
  have k: "''bio'' \<in> {''username'', ''email'', ''bio'', ''streamKey''}" by simp
  have v: "(\<lambda>k. if k = ''bio'' then Some [[]] else None) ''bio'' = Some ([] # [])"
    by simp
  have f: "form (put_request (\<lambda>k. if k = ''bio'' then Some [[]] else None) no_files)
             = Some ((\<lambda>k. if k = ''bio'' then Some [[]] else None), no_files)"
    by (simp add: put_request_def)
  note t = empty_text_field_is_absent[OF k v f, of example_env example_fs example_stringify
      "''0xabc''" "''0xabc''"]
  have reach:
    "(req_method (put_request (\<lambda>k. if k = ''bio'' then Some [[]] else None) no_files)
        = ''PUT''
      \<or> req_method (put_request (\<lambda>k. if k = ''bio'' then Some [[]] else None) no_files)
        = ''PATCH'')
     \<and> resolveWallet (put_request (\<lambda>k. if k = ''bio'' then Some [[]] else None) no_files)
           (\<lambda>k. if k = ''bio'' then Some [[]] else None) = Some ''0xabc''
     \<and> ''0xabc'' \<noteq> []
     \<and> fst (checkUserExists example_env ''0xabc'') = Some True
     \<and> (\<forall>k' \<in> {''username'', ''email'', ''bio'', ''streamKey'', ''socialLinks''}.
           \<not> truthy (first_value (\<lambda>k. if k = ''bio'' then Some [[]] else None) k'))
     \<and> no_files ''avatar'' = None"
    using example_exists
    by (simp add: put_request_def resolveWallet_def js_or_def truthy_def first_value_def
        no_files_def)
  from t have a: "handler example_env example_fs
     (put_request (\<lambda>k. if k = ''bio'' then Some [[]] else None) no_files)
   = handler example_env example_fs
       ((put_request (\<lambda>k. if k = ''bio'' then Some [[]] else None) no_files)
          \<lparr>form := Some ((\<lambda>k. if k = ''bio'' then Some [[]] else None)(''bio'' := None),
                          no_files)\<rparr>)"
    by (rule conjunct2[THEN conjunct1])
  from t have "(req_method (put_request (\<lambda>k. if k = ''bio'' then Some [[]] else None) no_files)
        = ''PUT''
      \<or> req_method (put_request (\<lambda>k. if k = ''bio'' then Some [[]] else None) no_files)
        = ''PATCH'')
     \<and> resolveWallet (put_request (\<lambda>k. if k = ''bio'' then Some [[]] else None) no_files)
           (\<lambda>k. if k = ''bio'' then Some [[]] else None) = Some ''0xabc''
     \<and> ''0xabc'' \<noteq> []
     \<and> fst (checkUserExists example_env ''0xabc'') = Some True
     \<and> (\<forall>k' \<in> {''username'', ''email'', ''bio'', ''streamKey'', ''socialLinks''}.
           \<not> truthy (first_value (\<lambda>k. if k = ''bio'' then Some [[]] else None) k'))
     \<and> no_files ''avatar'' = None
     \<longrightarrow> handler example_env example_fs
       (put_request (\<lambda>k. if k = ''bio'' then Some [[]] else None) no_files)
     = ((400, ErrorBody ''No update data provided''),
        [PoolQuery exists_query [''0xabc'']], example_fs)"
    by (rule conjunct2[THEN conjunct2, THEN conjunct2])
  then have b: "handler example_env example_fs
       (put_request (\<lambda>k. if k = ''bio'' then Some [[]] else None) no_files)
     = ((400, ErrorBody ''No update data provided''),
        [PoolQuery exists_query [''0xabc'']], example_fs)"
    using reach by (rule mp)
  show ?thesis using a b by (rule conjI)
qed

section \<open>Properties of the image store adapter\<close>

lemma js_split_no_sep: "sep \<notin> set s \<Longrightarrow> js_split sep s = [s]"
  by (induction s) (auto simp: Let_def)

lemma js_split_at_sep:
  "sep \<notin> set a \<Longrightarrow> js_split sep (a @ sep # rest) = a # js_split sep rest"
  by (induction a) (auto simp: Let_def)

lemma js_split_join:
  "segs \<noteq> [] \<Longrightarrow> \<forall>s \<in> set segs. sep \<notin> set s \<Longrightarrow>
   js_split sep (js_join [sep] segs) = segs"
proof (induction "[sep]" segs rule: js_join.induct)
  case 1
  then show ?case by simp
next
  case (2 x)
  then show ?case by (simp add: js_split_no_sep)
next
  case (3 x y ys)
  have "js_split sep (x @ sep # js_join [sep] (y # ys)) = x # js_split sep (js_join [sep] (y # ys))"
    using 3(3) by (simp add: js_split_at_sep)
  then show ?case using 3 by simp
qed

lemma js_join_snoc: "xs \<noteq> [] \<Longrightarrow> js_join sep (xs @ [y]) = js_join sep xs @ sep @ y"
  by (induction sep xs rule: js_join.induct) simp_all

lemma findIndex_none: "\<forall>y \<in> set xs. \<not> p y \<Longrightarrow> findIndex p xs = - 1"
  by (induction xs) (simp_all add: Let_def)

lemma findIndex_first:
  "\<forall>y \<in> set a. \<not> p y \<Longrightarrow> p x \<Longrightarrow> findIndex p (a @ x # b) = int (length a)"
  by (induction a) (simp_all add: Let_def)

lemma lastIndexOf_absent: "c \<notin> set s \<Longrightarrow> lastIndexOf s c = - 1"
  by (induction s) (auto simp: Let_def)

lemma lastIndexOf_last:
  "c \<notin> set e \<Longrightarrow> lastIndexOf (n @ c # e) c = int (length n)"
  by (induction n) (simp_all add: Let_def lastIndexOf_absent)

lemma update_last: "xs \<noteq> [] \<Longrightarrow> xs[length xs - 1 := v] = butlast xs @ [v]"
  by (induction xs rule: rev_induct) (simp_all add: list_update_append)

text \<open>The identifier for a path whose first \<^verbatim>\<open>upload\<close> segment is followed by \<open>b\<close>.\<close>

lemma extract_after_marker:
  assumes "URL_pathname env url = Some p"
    and "js_split CHR ''/'' p = a @ ''upload'' # b"
    and "''upload'' \<notin> set a"
  shows "extractPublicIdFromUrl env url =
           (if length b < 2 then None
            else Some (js_join ''/''
                   (butlast (tl b) @ [substring0 (last b) (lastIndexOf (last b) CHR ''.'')])))"
proof -
  have idx: "findIndex (\<lambda>part. part = ''upload'') (a @ ''upload'' # b) = int (length a)"
    using assms(3) by (intro findIndex_first) auto
  show ?thesis
  proof (cases "length b < 2")
    case True
    then show ?thesis
      by (simp add: extractPublicIdFromUrl_def assms(1,2) idx Let_def)
  next
    case False
    have go: "\<not> (int (length a) = - 1
                \<or> int (length (a @ ''upload'' # b)) \<le> int (length a) + 2)"
      using False by simp
    have parts: "slice_from (a @ ''upload'' # b) (int (length a) + 2) = tl b"
      by (simp add: slice_from_def nat_add_distrib drop_Suc)
    have ne: "tl b \<noteq> []" using False by (cases b; cases "tl b") auto
    have lst: "last (tl b) = last b" using ne by (cases b) auto
    have "extractPublicIdFromUrl env url =
        Some (js_join ''/''
          ((tl b)[length (tl b) - 1 :=
             substring0 (last (tl b)) (lastIndexOf (last (tl b)) CHR ''.'')]))"
      unfolding extractPublicIdFromUrl_def assms(1) option.case Let_def assms(2) idx parts
      by (simp only: go if_False)
    then show ?thesis
      using False by (simp only: update_last[OF ne] lst if_False)
  qed
qed

lemma extract_without_marker:
  assumes "URL_pathname env url = Some p"
    and "''upload'' \<notin> set (js_split CHR ''/'' p)"
  shows "extractPublicIdFromUrl env url = None"
proof -
  have "findIndex (\<lambda>part. part = ''upload'') (js_split CHR ''/'' p) = - 1"
    using assms(2) by (intro findIndex_none) auto
  then show ?thesis
    by (simp add: extractPublicIdFromUrl_def assms(1) Let_def)
qed

lemma deleteImage_no_identifier:
  "extractPublicIdFromUrl env url = None \<or> extractPublicIdFromUrl env url = Some [] \<Longrightarrow>
   deleteImage env url = (Inl (Error ''Failed to delete image from Cloudinary''), [])"
  by (auto simp: deleteImage_def deleteImage_try_def)

lemma deleteImage_calls_destroy:
  "extractPublicIdFromUrl env url = Some publicId \<Longrightarrow> publicId \<noteq> [] \<Longrightarrow>
   snd (deleteImage env url) = [Destroy publicId]"
  by (simp add: deleteImage_def deleteImage_try_def)

text \<open>The definitions a concrete run of the adapter unfolds.\<close>

lemmas store_defs =
  deleteImage_def deleteImage_try_def extractPublicIdFromUrl_def example_env_def
  example_pathname_def slice_from_def substring0_def Let_def

text \<open>
  C3 (amended). For every URL whose path is
  \<^verbatim>\<open>/<prefix...>/upload/<version>/<id-path...>/<name>.<ext>\<close>, where no prefix segment is
  itself \<^verbatim>\<open>upload\<close>, no segment contains a slash and the extension contains no dot,
  \<^verbatim>\<open>extractPublicIdFromUrl\<close> returns exactly the identifier
  \<^verbatim>\<open><id-path...>/<name>\<close>. For every URL whose path has no segment equal to
  \<^verbatim>\<open>upload\<close>, or fewer than two segments after the first one, \<^verbatim>\<open>deleteImage\<close> fails
  without invoking the remote delete.
\<close>

theorem public_id_round_trip:
  "(URL_pathname env url =
      Some (''/'' @ js_join ''/''
              (pre @ [''upload'', version] @ idpath @ [name @ ''.'' @ ext]))
    \<and> ''upload'' \<notin> set pre
    \<and> (\<forall>seg \<in> set (pre @ [version] @ idpath @ [name @ ''.'' @ ext]). CHR ''/'' \<notin> set seg)
    \<and> CHR ''.'' \<notin> set ext
    \<longrightarrow> extractPublicIdFromUrl env url = Some (js_join ''/'' (idpath @ [name])))
   \<and> (URL_pathname env url' = Some p
      \<and> (''upload'' \<notin> set (js_split CHR ''/'' p)
         \<or> (\<exists>a b. js_split CHR ''/'' p = a @ ''upload'' # b \<and> ''upload'' \<notin> set a
                  \<and> length b < 2))
    \<longrightarrow> isl (fst (deleteImage env url')) \<and> snd (deleteImage env url') = [])"
proof (rule conjI; rule impI)
  assume h: "URL_pathname env url =
      Some (''/'' @ js_join ''/''
              (pre @ [''upload'', version] @ idpath @ [name @ ''.'' @ ext]))
    \<and> ''upload'' \<notin> set pre
    \<and> (\<forall>seg \<in> set (pre @ [version] @ idpath @ [name @ ''.'' @ ext]). CHR ''/'' \<notin> set seg)
    \<and> CHR ''.'' \<notin> set ext"
  let ?segs = "pre @ [''upload'', version] @ idpath @ [name @ ''.'' @ ext]"
  have noslash: "\<forall>s \<in> set ?segs. CHR ''/'' \<notin> set s" using h by auto
  have "js_split CHR ''/'' (js_join [CHR ''/''] ?segs) = ?segs"
    using noslash by (intro js_split_join) simp_all
  then have split: "js_split CHR ''/'' (''/'' @ js_join ''/'' ?segs)
      = ([] # pre) @ ''upload'' # (version # idpath @ [name @ ''.'' @ ext])"
    by (simp add: Let_def)
  have marker: "''upload'' \<notin> set ([] # pre)" using h by simp
  have path: "URL_pathname env url = Some (''/'' @ js_join ''/'' ?segs)" using h by simp
  have dot: "lastIndexOf (name @ CHR ''.'' # ext) CHR ''.'' = int (length name)"
    using h by (intro lastIndexOf_last) simp
  show "extractPublicIdFromUrl env url = Some (js_join ''/'' (idpath @ [name]))"
    unfolding extract_after_marker[OF path split marker]
    by (simp add: dot substring0_def butlast_append)
next
  assume h: "URL_pathname env url' = Some p
      \<and> (''upload'' \<notin> set (js_split CHR ''/'' p)
         \<or> (\<exists>a b. js_split CHR ''/'' p = a @ ''upload'' # b \<and> ''upload'' \<notin> set a
                  \<and> length b < 2))"
  then have path: "URL_pathname env url' = Some p" by simp
  have "extractPublicIdFromUrl env url' = None"
  proof (cases "''upload'' \<in> set (js_split CHR ''/'' p)")
    case False
    then show ?thesis using extract_without_marker[OF path] by simp
  next
    case True
    then obtain a b where ab: "js_split CHR ''/'' p = a @ ''upload'' # b"
        "''upload'' \<notin> set a" "length b < 2"
      using h by blast
    show ?thesis using extract_after_marker[OF path ab(1,2)] ab(3) by simp
  qed
  then have "deleteImage env url' = (Inl (Error ''Failed to delete image from Cloudinary''), [])"
    by (simp add: deleteImage_no_identifier)
  then show "isl (fst (deleteImage env url')) \<and> snd (deleteImage env url') = []"
    by simp
qed

theorem public_id_round_trip_witness:
  "extractPublicIdFromUrl example_env
       ''https://res.cloudinary.com/demo/image/upload/v1/user_avatars/abc123.jpg''
     = Some ''user_avatars/abc123''
   \<and> isl (fst (deleteImage example_env ''https://res.cloudinary.com/demo/image/avatar.jpg''))
   \<and> snd (deleteImage example_env ''https://res.cloudinary.com/demo/image/avatar.jpg'') = []"
proof -
  have path1: "URL_pathname example_env
       ''https://res.cloudinary.com/demo/image/upload/v1/user_avatars/abc123.jpg''
     = Some (''/'' @ js_join ''/''
              ([''demo'', ''image''] @ [''upload'', ''v1''] @ [''user_avatars'']
               @ [''abc123'' @ ''.'' @ ''jpg'']))"
    by (simp add: example_env_def example_pathname_def)
  have ok1: "''upload'' \<notin> set [''demo'', ''image'']
     \<and> (\<forall>seg \<in> set ([''demo'', ''image''] @ [''v1''] @ [''user_avatars'']
                      @ [''abc123'' @ ''.'' @ ''jpg'']). CHR ''/'' \<notin> set seg)
     \<and> CHR ''.'' \<notin> set ''jpg''"
    by simp
  have path2: "URL_pathname example_env ''https://res.cloudinary.com/demo/image/avatar.jpg''
     = Some ''/demo/image/avatar.jpg''"
    by (simp add: example_env_def example_pathname_def)
  have ok2: "''upload'' \<notin> set (js_split CHR ''/'' ''/demo/image/avatar.jpg'')"
    by (simp add: Let_def)
  note t = public_id_round_trip[of example_env
      "''https://res.cloudinary.com/demo/image/upload/v1/user_avatars/abc123.jpg''"
      "[''demo'', ''image'']" "''v1''" "[''user_avatars'']" "''abc123''" "''jpg''"
      "''https://res.cloudinary.com/demo/image/avatar.jpg''" "''/demo/image/avatar.jpg''"]
  have a: "extractPublicIdFromUrl example_env
       ''https://res.cloudinary.com/demo/image/upload/v1/user_avatars/abc123.jpg''
     = Some (js_join ''/'' ([''user_avatars''] @ [''abc123'']))"
    using t path1 ok1 by blast
  have b: "isl (fst (deleteImage example_env ''https://res.cloudinary.com/demo/image/avatar.jpg''))
     \<and> snd (deleteImage example_env ''https://res.cloudinary.com/demo/image/avatar.jpg'') = []"
    using t path2 ok2 by blast
  show ?thesis using a b by simp
qed

text \<open>
  C3 as stated fails twice. For a URL without the \<^verbatim>\<open>upload\<close> segment, \<^verbatim>\<open>deleteImage\<close>
  does not fail with the invalid-reference error \<^verbatim>\<open>Invalid Cloudinary URL\<close>: that error
  is raised inside the \<^verbatim>\<open>try\<close> block, and what \<^verbatim>\<open>deleteImage\<close> throws is
  \<^verbatim>\<open>Failed to delete image from Cloudinary\<close>, as for a failing remote delete. And a
  URL of the stated form whose prefix holds a segment \<^verbatim>\<open>upload\<close> does not give back
  the identifier \<^verbatim>\<open>user_avatars/abc123\<close>.
\<close>

theorem invalid_reference_error_replaced:
  "deleteImage_try example_env ''https://res.cloudinary.com/demo/image/avatar.jpg''
     = (Inl (Error ''Invalid Cloudinary URL''), [])
   \<and> deleteImage example_env ''https://res.cloudinary.com/demo/image/avatar.jpg''
     = (Inl (Error ''Failed to delete image from Cloudinary''), [])
   \<and> Error ''Failed to delete image from Cloudinary'' \<noteq> Error ''Invalid Cloudinary URL''
   \<and> extractPublicIdFromUrl example_env
       ''https://res.cloudinary.com/upload/image/upload/v1/user_avatars/abc123.jpg''
     = Some ''upload/v1/user_avatars/abc123''"
  by (simp add: store_defs)

text \<open>
  C10 (amended). For every URL whose path has a first \<^verbatim>\<open>upload\<close> segment followed by
  at least two further segments and whose final segment contains no dot,
  \<^verbatim>\<open>extractPublicIdFromUrl\<close> does not fail: it returns the segments after the version
  with the final one cut down to the empty string. With three or more segments after
  \<^verbatim>\<open>upload\<close> the identifier is non-empty and ends in a slash, and \<^verbatim>\<open>deleteImage\<close>
  invokes the remote delete with it. With exactly two, the identifier is the empty
  string and \<^verbatim>\<open>deleteImage\<close> fails without invoking the remote delete.
\<close>

theorem extensionless_url_identifier:
  assumes "URL_pathname env url = Some p"
    and "js_split CHR ''/'' p = a @ ''upload'' # b"
    and "''upload'' \<notin> set a"
    and "2 \<le> length b"
    and "CHR ''.'' \<notin> set (last b)"
  shows "extractPublicIdFromUrl env url = Some (js_join ''/'' (butlast (tl b) @ [[]]))
       \<and> (3 \<le> length b \<longrightarrow>
            extractPublicIdFromUrl env url = Some (js_join ''/'' (butlast (tl b)) @ ''/'')
            \<and> snd (deleteImage env url) = [Destroy (js_join ''/'' (butlast (tl b)) @ ''/'')])
       \<and> (length b = 2 \<longrightarrow>
            extractPublicIdFromUrl env url = Some []
            \<and> isl (fst (deleteImage env url)) \<and> snd (deleteImage env url) = [])"
proof -
  have cut: "substring0 (last b) (lastIndexOf (last b) CHR ''.'') = []"
    using assms(5) by (simp add: lastIndexOf_absent substring0_def)
  have id: "extractPublicIdFromUrl env url = Some (js_join ''/'' (butlast (tl b) @ [[]]))"
    using extract_after_marker[OF assms(1-3)] assms(4) by (simp add: cut)
  have long: "extractPublicIdFromUrl env url = Some (js_join ''/'' (butlast (tl b)) @ ''/'')
            \<and> snd (deleteImage env url) = [Destroy (js_join ''/'' (butlast (tl b)) @ ''/'')]"
    if "3 \<le> length b"
  proof -
    have "butlast (tl b) \<noteq> []" using that by (cases b; cases "tl b"; cases "tl (tl b)") auto
    then have "js_join ''/'' (butlast (tl b) @ [[]]) = js_join ''/'' (butlast (tl b)) @ ''/''"
      by (simp add: js_join_snoc)
    then have e: "extractPublicIdFromUrl env url = Some (js_join ''/'' (butlast (tl b)) @ ''/'')"
      using id by simp
    show ?thesis using e deleteImage_calls_destroy[OF e] by simp
  qed
  have short: "extractPublicIdFromUrl env url = Some []
            \<and> isl (fst (deleteImage env url)) \<and> snd (deleteImage env url) = []"
    if "length b = 2"
  proof -
    have "butlast (tl b) = []" using that by (cases b; cases "tl b") auto
    then have e: "extractPublicIdFromUrl env url = Some []" using id by simp
    show ?thesis using e deleteImage_no_identifier[of env url] by simp
  qed
  show ?thesis using id long short by blast
qed

theorem extensionless_url_identifier_witness:
  "extractPublicIdFromUrl example_env
       ''https://res.cloudinary.com/demo/image/upload/v1/user_avatars/abc123''
     = Some ''user_avatars/''
   \<and> snd (deleteImage example_env
       ''https://res.cloudinary.com/demo/image/upload/v1/user_avatars/abc123'')
     = [Destroy ''user_avatars/'']"
proof -
  have path: "URL_pathname example_env
       ''https://res.cloudinary.com/demo/image/upload/v1/user_avatars/abc123''
     = Some ''/demo/image/upload/v1/user_avatars/abc123''"
    by (simp add: example_env_def example_pathname_def)
  have split: "js_split CHR ''/'' ''/demo/image/upload/v1/user_avatars/abc123''
     = [[], ''demo'', ''image''] @ ''upload'' # [''v1'', ''user_avatars'', ''abc123'']"
    by (simp add: Let_def)
  have marker: "''upload'' \<notin> set [[], ''demo'', ''image'']" by simp
  have len: "2 \<le> length [''v1'', ''user_avatars'', ''abc123'']" by simp
  have nodot: "CHR ''.'' \<notin> set (last [''v1'', ''user_avatars'', ''abc123''])" by simp
  show ?thesis
    using extensionless_url_identifier[OF path split marker len nodot] by simp
qed

text \<open>
  C10 as stated fails when exactly two segments follow \<^verbatim>\<open>upload\<close>: the identifier is
  the empty string, which does not end in a slash, and the deletion does not proceed.
\<close>

theorem extensionless_two_segments_not_deleted:
  "js_split CHR ''/'' ''/demo/image/upload/v1/abc123''
     = [[], ''demo'', ''image'', ''upload'', ''v1'', ''abc123'']
   \<and> extractPublicIdFromUrl example_env ''https://res.cloudinary.com/demo/image/upload/v1/abc123''
     = Some []
   \<and> deleteImage example_env ''https://res.cloudinary.com/demo/image/upload/v1/abc123''
     = (Inl (Error ''Failed to delete image from Cloudinary''), [])"
  by (simp add: store_defs)

end
